theory Spec2Isabelle
  imports Main
begin

section \<open>Errors and results\<close>

text \<open>
  Every Python exception the exporter can raise is a value. A function of the source that
  may raise returns \<open>error + 'a\<close>, with \<open>Inl\<close> the exception. The string of an
  \<open>AssertionError\<close> abbreviates the message of the source's \<^verbatim>\<open>assert\<close>.
\<close>

datatype error =
    AssertionError string
  | KeyError string
  | IndexError
  | AttributeError string
  | ValueError string
  | RuntimeError string

definition bind_res :: "error + 'a \<Rightarrow> ('a \<Rightarrow> error + 'b) \<Rightarrow> error + 'b" where
  "bind_res r f = (case r of Inl e \<Rightarrow> Inl e | Inr x \<Rightarrow> f x)"

section \<open>The type projector (\<^verbatim>\<open>_type_to_proto\<close>, export.py lines 34-67)\<close>

text \<open>
  \<open>torch_type\<close> is what the projector reads of a \<^verbatim>\<open>torch._C.Type\<close>: its kind tag, the element
  type of a list, and for a tensor \<^verbatim>\<open>scalarType()\<close> and \<^verbatim>\<open>sizes()\<close>, both of which may be
  \<^verbatim>\<open>None\<close>. Every other kind of type (FloatType, ClassType, TupleType, ...) is \<open>OtherType\<close>
  with its kind tag.
\<close>

datatype torch_type =
    NoneType
  | ListType torch_type
  | IntType
  | TensorType "string option" "int list option"
  | OtherType string

fun kind_of_type :: "torch_type \<Rightarrow> string" where
  "kind_of_type NoneType = ''NoneType''"
| "kind_of_type (ListType t) = ''ListType''"
| "kind_of_type IntType = ''IntType''"
| "kind_of_type (TensorType st sz) = ''TensorType''"
| "kind_of_type (OtherType k) = k"

text \<open>\<^verbatim>\<open>onnx.TensorProto.DataType\<close>, the members the exporter names.\<close>

datatype DataType =
    UNDEFINED | FLOAT | UINT8 | INT8 | UINT16 | INT16 | INT32 | INT64
  | STRING | BOOL | FLOAT16 | DOUBLE

text \<open>
  \<^verbatim>\<open>onnx.TypeProto\<close>: a denotation and at most one of \<^verbatim>\<open>tensor_type\<close> and
  \<^verbatim>\<open>sequence_type\<close>. A tensor type holds its element type and, when the field is set, a
  \<^verbatim>\<open>TensorShapeProto\<close>, here the list of the \<^verbatim>\<open>dim_value\<close>s of its dimensions.
\<close>

datatype TypeProto =
  TypeProto (denotation: string) (type_value: type_value)
and type_value =
    NotSet
  | tensor_type (elem_type: DataType) (shape: "int list option")
  | sequence_type (seq_elem_type: TypeProto)

text \<open>
  \<open>repr_t\<close> is Python's \<^verbatim>\<open>repr\<close> of a type and \<open>cast_pytorch_to_onnx\<close> the table
  \<^verbatim>\<open>torch.onnx.symbolic_helper.cast_pytorch_to_onnx\<close>; both belong to torch and are
  parameters. Indexing the table with a scalar type it does not hold raises \<^verbatim>\<open>KeyError\<close>.
\<close>

fun type_to_proto ::
  "(torch_type \<Rightarrow> string) \<Rightarrow> (string \<rightharpoonup> DataType) \<Rightarrow> torch_type \<Rightarrow> error + TypeProto"
where
  "type_to_proto repr_t cast_pytorch_to_onnx NoneType = Inr (TypeProto [] NotSet)"
| "type_to_proto repr_t cast_pytorch_to_onnx (ListType e) =
     bind_res (type_to_proto repr_t cast_pytorch_to_onnx e)
       (\<lambda>p. Inr (TypeProto (repr_t (ListType e)) (sequence_type p)))"
| "type_to_proto repr_t cast_pytorch_to_onnx IntType =
     Inr (TypeProto (repr_t IntType) (tensor_type INT64 (Some [])))"
| "type_to_proto repr_t cast_pytorch_to_onnx (TensorType st sz) =
     bind_res
       (case st of
          None \<Rightarrow> Inr UNDEFINED
        | Some s \<Rightarrow>
            (case cast_pytorch_to_onnx s of
               None \<Rightarrow> Inl (KeyError s)
             | Some d \<Rightarrow> Inr d))
       (\<lambda>d. Inr (TypeProto (repr_t (TensorType st sz))
              (tensor_type d (Some (case sz of None \<Rightarrow> [] | Some ss \<Rightarrow> ss)))))"
| "type_to_proto repr_t cast_pytorch_to_onnx (OtherType k) =
     Inl (AssertionError (''Not Tensor type(actual: '' @ k @ '')''))"

section \<open>The torch graph (torch.\_C.Graph, Block, Node, Value)\<close>

text \<open>
  The exporter works on torch's mutable IR through handles. The IR belongs to torch, not to
  this repository; what follows is the part of it the exporter reads and writes, as a store.
  \<^item> A node handle is an index into the arena \<open>nodes\<close>; a value handle is the value's unique
    id (\<^verbatim>\<open>v.unique()\<close>, what \<^verbatim>\<open>_unique_id\<close> returns).
  \<^item> A block is its parameter node (whose outputs are the block's inputs), its nodes in
    order, and its return node (whose inputs are the block's outputs). The graph is its
    top-level block.
  \<^item> The uses of a value are the input slots of the nodes of the arena that hold it, the
    return nodes included.
  \<^item> A node kind \<^verbatim>\<open>ns::op\<close> is the pair \<open>(ns, op)\<close>.
\<close>

type_synonym TorchValueID = nat
type_synonym ONNXValueID = string
type_synonym node_id = nat

datatype torch_dtype =
    float32 | uint8 | int8 | int16 | int32 | int64 | bool_dtype | float64 | float16
  | other_dtype string

record Tensor =
  dtype :: torch_dtype
  tshape :: "int list"
  tdata :: "int list"

datatype pyobj =
    PyNone
  | PyInt int
  | PyStr string
  | PyTensor Tensor
  | PyList "pyobj list"

record attribute =
  kindOf :: string
  attr_val :: pyobj

record Value =
  unique_name :: string
  vtype :: "torch_type option"
  vnode :: node_id

record Block =
  param_node :: node_id
  block_nodes :: "node_id list"
  return_node :: node_id

record Node =
  kind :: "string \<times> string"
  inputs :: "TorchValueID list"
  outputs :: "TorchValueID list"
  attributes :: "(string \<times> attribute) list"
  blocks :: "Block list"
  scopeName :: string
  sourceRange :: string
  scalar_args :: "pyobj list"

record Graph =
  nodes :: "Node list"
  vals :: "TorchValueID \<rightharpoonup> Value"
  next_unique :: nat
  top_block :: Block

text \<open>A handle on a block: the graph itself, or the \<open>i\<close>-th block of a node.\<close>

datatype block_ref = TopBlock | NodeBlock node_id nat

definition get_node :: "Graph \<Rightarrow> node_id \<Rightarrow> error + Node" where
  "get_node g n =
     (if n < length (nodes g) then Inr (nodes g ! n) else Inl (RuntimeError ''no such node''))"

definition get_value :: "Graph \<Rightarrow> TorchValueID \<Rightarrow> error + Value" where
  "get_value g v =
     (case vals g v of None \<Rightarrow> Inl (RuntimeError ''no such value'') | Some r \<Rightarrow> Inr r)"

definition get_block :: "Graph \<Rightarrow> block_ref \<Rightarrow> error + Block" where
  "get_block g r =
     (case r of
        TopBlock \<Rightarrow> Inr (top_block g)
      | NodeBlock n i \<Rightarrow>
          bind_res (get_node g n)
            (\<lambda>nd. if i < length (blocks nd) then Inr (blocks nd ! i)
                  else Inl (RuntimeError ''no such block'')))"

definition uses :: "Graph \<Rightarrow> TorchValueID \<Rightarrow> (node_id \<times> nat) list" where
  "uses g v =
     concat (map (\<lambda>n. map (\<lambda>i. (n, i))
                        (filter (\<lambda>i. inputs (nodes g ! n) ! i = v)
                           [0 ..< length (inputs (nodes g ! n))]))
                 [0 ..< length (nodes g)])"

text \<open>
  \<^verbatim>\<open>old.replaceAllUsesWith(new)\<close>: torch moves the first use of \<open>old\<close> to \<open>new\<close> while \<open>old\<close>
  has a use, so every input slot that held \<open>old\<close> holds \<open>new\<close> afterwards. With
  \<open>old = new\<close> and a use the loop never ends: there is no result (\<open>None\<close>).
\<close>

definition subst_value :: "TorchValueID \<Rightarrow> TorchValueID \<Rightarrow> TorchValueID \<Rightarrow> TorchValueID" where
  "subst_value old new x = (if x = old then new else x)"

definition replaceAllUsesWith :: "Graph \<Rightarrow> TorchValueID \<Rightarrow> TorchValueID \<Rightarrow> Graph option" where
  "replaceAllUsesWith g old new =
     (if old = new \<and> uses g old \<noteq> [] then None
      else Some (g\<lparr>nodes := map (\<lambda>nd. nd\<lparr>inputs := map (subst_value old new) (inputs nd)\<rparr>)
                               (nodes g)\<rparr>))"

text \<open>
  \<^verbatim>\<open>v.debugName()\<close> is the value's name, or its unique id in decimal when it has none.
\<close>

fun digits :: "nat \<Rightarrow> nat \<Rightarrow> string" where
  "digits 0 n = []"
| "digits (Suc f) n =
     (if n < 10 then [char_of (48 + n)]
      else digits f (n div 10) @ [char_of (48 + n mod 10)])"

definition str_nat :: "nat \<Rightarrow> string" where
  "str_nat n = digits (Suc n) n"

definition debugName :: "TorchValueID \<Rightarrow> Value \<Rightarrow> string" where
  "debugName v r = (if unique_name r = [] then str_nat v else unique_name r)"

section \<open>The emitted protos\<close>

text \<open>
  What the exporter writes of onnx's protos. An attribute of a \<^verbatim>\<open>NodeProto\<close> is a Python
  object as \<^verbatim>\<open>onnx.helper.make_attribute\<close> took it, a tensor, or a nested graph.
\<close>

record TensorProto =
  tp_name :: "ONNXValueID option"
  tp_tensor :: Tensor

record ValueInfoProto =
  vi_name :: string
  vi_type :: "TypeProto option"
  vi_doc_string :: string

datatype NodeProto =
  NodeProto (np_name: string) (np_op_type: string) (np_doc_string: string)
    (np_attribute: "(string \<times> AttributeProto) list")
    (np_input: "string list") (np_output: "string list")
and AttributeProto =
    AttrObj pyobj
  | AttrTensor TensorProto
  | AttrGraph GraphProto
and GraphProto =
  GraphProto (gp_name: string) (gp_node: "NodeProto list")
    (gp_input: "ValueInfoProto list") (gp_output: "ValueInfoProto list")
    (gp_initializer: "TensorProto list") (gp_doc_string: string)

record ModelProto =
  mp_graph :: GraphProto
  mp_opset_import :: "(string \<times> int) list"

definition tensor_to_proto :: "Tensor \<Rightarrow> ONNXValueID option \<Rightarrow> TensorProto" where
  "tensor_to_proto t nm = \<lparr>tp_name = nm, tp_tensor = t\<rparr>"

section \<open>The exporter object and its collaborators\<close>

datatype OperatorExportTypes = ONNX | ONNX_ATEN | ONNX_ATEN_FALLBACK | ONNX_FALLTHROUGH

text \<open>
  \<^verbatim>\<open>_Exporter\<close> with the options of \<^verbatim>\<open>_ExporterOptions\<close>. The field \<^verbatim>\<open>g\<close> of the source is
  \<open>graph_of\<close>, \<^verbatim>\<open>inputs\<close> and \<^verbatim>\<open>outputs\<close> are \<open>ex_inputs\<close> and \<open>ex_outputs\<close>, and
  \<^verbatim>\<open>traced.original_name\<close> is \<open>original_name\<close>. The dictionaries keyed by nodes are keyed
  by node handles.
\<close>

record Exporter =
  opset_version :: int
  check_trace :: bool
  strict_trace :: bool
  force_outplace_trace :: bool
  verbose :: bool
  strip_doc_string :: bool
  torch_constant_prop :: bool
  enable_onnx_checker :: bool
  onnx_shape_inference :: bool
  onnx_strict_mode :: bool
  onnx_check_type :: bool
  onnx_data_prop :: bool
  input_names :: "string list option"
  output_names :: "string list option"
  do_constant_folding :: bool
  operator_export_type :: OperatorExportTypes
  dynamic_axes :: pyobj
  ex_inputs :: "Tensor list"
  ex_outputs :: "Tensor list"
  attrs :: "TorchValueID \<rightharpoonup> ONNXValueID"
  node_doc_string :: "node_id \<rightharpoonup> string"
  node_scope :: "node_id \<rightharpoonup> string"
  graph_doc_string :: string
  original_name :: string
  graph_of :: Graph
  vars :: "string \<rightharpoonup> Tensor"
  self_id :: "TorchValueID option"
  model :: "ModelProto option"

text \<open>
  A symbolic (lowering) function is called as \<^verbatim>\<open>sym_func(g, *node_inputs, **attrs)\<close>. It
  builds nodes in the graph and returns one value or a list or tuple of values, or raises.
\<close>

datatype arg = ArgValue TorchValueID | ArgObj pyobj

datatype sym_outs = OneValue TorchValueID | ManyValues "TorchValueID list"

type_synonym sym_func =
  "Graph \<Rightarrow> block_ref \<Rightarrow> arg list \<Rightarrow> (string \<times> pyobj) list \<Rightarrow> error + (sym_outs \<times> Graph)"

text \<open>
  What a \<^verbatim>\<open>prim::PythonOp\<close> node's \<^verbatim>\<open>pyobj()\<close> leads to: whether the class reached is a
  \<^verbatim>\<open>torch.autograd.Function\<close>, and its \<^verbatim>\<open>symbolic\<close> attribute when it has one.
\<close>

record py_function =
  is_autograd_function :: bool
  symbolic :: "sym_func option"

text \<open>
  What \<^verbatim>\<open>_run_trace\<close> reads of the module \<^verbatim>\<open>torch.jit.trace\<close> returns, with the outputs of
  its call on the inputs, made a tuple.
\<close>

record traced =
  tr_original_name :: string
  tr_outputs :: "Tensor list"
  tr_inlined_graph :: Graph
  tr_graph_str :: string
  tr_state_dict :: "string \<rightharpoonup> Tensor"
  tr_state_dict_str :: string

text \<open>
  The collaborators of the exporter that are not part of this repository: torch's printing
  of nodes and values, \<^verbatim>\<open>toIValue\<close>, the naming of renamed values, the registry of symbolic
  functions, the node builders behind \<^verbatim>\<open>g.op\<close> that the handlers' local functions call, and
  torch's graph passes, the tracer, the shape inference and the checker of onnx, the
  serialization of a model and the opening of a file for writing. A pass \<^verbatim>\<open>torch._C._jit_pass_p\<close> is \<open>jit_pass env ''p''\<close>; a pass
  raises or returns the graph as it left it. \<^verbatim>\<open>_jit_pass_onnx_constant_fold\<close> returns the
  dictionary of the folded tensors, in its order, with the graph.
\<close>

record env =
  repr_node :: "Graph \<Rightarrow> node_id \<Rightarrow> string"
  repr_nodes :: "Graph \<Rightarrow> node_id set \<Rightarrow> string"
  repr_value :: "Graph \<Rightarrow> TorchValueID \<Rightarrow> string"
  repr_type :: "torch_type \<Rightarrow> string"
  toIValue :: "Graph \<Rightarrow> TorchValueID \<Rightarrow> pyobj"
  fresh_name :: "Graph \<Rightarrow> string \<Rightarrow> string"
  cast_pytorch_to_onnx :: "string \<rightharpoonup> DataType"
  registered_op :: "string \<Rightarrow> int \<Rightarrow> sym_func option"
  pyobj :: "Graph \<Rightarrow> node_id \<Rightarrow> py_function"
  gen_const :: "node_id \<Rightarrow> sym_func"
  gen_concat :: sym_func
  gen_seq :: sym_func
  gen_aten_node :: "node_id \<Rightarrow> sym_func"
  infer_type :: "Tensor \<Rightarrow> torch_type"
  valid_name :: "string \<Rightarrow> bool"
  jit_pass :: "string \<Rightarrow> Graph \<Rightarrow> error + Graph"
  jit_pass_vars :: "string \<Rightarrow> Graph \<Rightarrow> (string \<rightharpoonup> Tensor) \<Rightarrow> error + Graph"
  jit_pass_onnx_set_dynamic_input_shape ::
    "Graph \<Rightarrow> pyobj \<Rightarrow> string list \<Rightarrow> error + Graph"
  jit_pass_onnx_constant_fold ::
    "Graph \<Rightarrow> (string \<rightharpoonup> Tensor) \<Rightarrow> int \<Rightarrow> error + ((string \<times> Tensor) list \<times> Graph)"
  constant_folding_opset_versions :: "int list"
  repr_graph :: "Graph \<Rightarrow> string"
  printable_graph :: "GraphProto \<Rightarrow> string"
  infer_shapes :: "ModelProto \<Rightarrow> bool \<Rightarrow> bool \<Rightarrow> bool \<Rightarrow> error + ModelProto"
  checker_check_model :: "ModelProto \<Rightarrow> error option"
  trace :: "Exporter \<Rightarrow> error + traced"
  select_model_mode_for_export :: "Exporter \<Rightarrow> error option"
  supported_opset :: "int \<Rightarrow> bool"
  register_version :: "int \<Rightarrow> error option"
  serialize :: "ModelProto \<Rightarrow> string"
  open_wb :: "string \<Rightarrow> error option"

text \<open>
  \<^verbatim>\<open>v.setDebugName(name)\<close>: torch refuses a name it holds invalid, and renames every other
  value of that name.
\<close>

definition setDebugName :: "env \<Rightarrow> Graph \<Rightarrow> TorchValueID \<Rightarrow> string \<Rightarrow> error + Graph" where
  "setDebugName env gr v nm =
     (if \<not> valid_name env nm then Inl (RuntimeError ''Invalid name'')
      else bind_res (get_value gr v) (\<lambda>r.
        Inr (gr\<lparr>vals := (\<lambda>w.
               if w = v then Some (r\<lparr>unique_name := nm\<rparr>)
               else (case vals gr w of
                       None \<Rightarrow> None
                     | Some rw \<Rightarrow>
                         if nm \<noteq> [] \<and> unique_name rw = nm
                         then Some (rw\<lparr>unique_name := fresh_name env gr nm\<rparr>)
                         else Some rw))\<rparr>)))"

text \<open>
  \<^verbatim>\<open>new.copyMetadata(old)\<close>: \<open>new\<close> takes the type of \<open>old\<close> and, when \<open>old\<close> has a name,
  that name.
\<close>

definition copyMetadata :: "env \<Rightarrow> Graph \<Rightarrow> TorchValueID \<Rightarrow> TorchValueID \<Rightarrow> error + Graph" where
  "copyMetadata env gr new old =
     bind_res (get_value gr old) (\<lambda>ro.
     bind_res (get_value gr new) (\<lambda>rn.
       let g1 = gr\<lparr>vals := (vals gr)(new \<mapsto> rn\<lparr>vtype := vtype ro\<rparr>)\<rparr> in
       if unique_name ro = [] then Inr g1
       else setDebugName env g1 new (unique_name ro)))"

section \<open>Results of functions that may not return\<close>

text \<open>
  A function of the exporter that may run forever returns \<open>(error + 'a) option\<close>: \<open>None\<close>
  when it does not return, \<open>Some (Inl e)\<close> when it raises \<open>e\<close>.
\<close>

definition bind_out ::
  "(error + 'a) option \<Rightarrow> ('a \<Rightarrow> (error + 'b) option) \<Rightarrow> (error + 'b) option"
where
  "bind_out r f = (case r of None \<Rightarrow> None | Some (Inl e) \<Rightarrow> Some (Inl e) | Some (Inr x) \<Rightarrow> f x)"

definition lift_res :: "error + 'a \<Rightarrow> (error + 'a) option" where
  "lift_res r = Some r"

section \<open>Logging (\<^verbatim>\<open>log\<close>, lines 279-292)\<close>

text \<open>Printing to standard output is not modelled; the appended documentation is.\<close>

definition log_section :: "string \<Rightarrow> string \<Rightarrow> string" where
  "log_section title v = [CHR 0x0A] @ ''## '' @ title @ [CHR 0x0A] @ v @ [CHR 0x0A]"

definition log :: "Exporter \<Rightarrow> string \<Rightarrow> string \<Rightarrow> bool \<Rightarrow> Exporter" where
  "log self title v debug =
     (if \<not> (verbose self \<or> debug) then self
      else if strip_doc_string self then self
      else self\<lparr>graph_doc_string := graph_doc_string self @ log_section title v\<rparr>)"

section \<open>The lowering dispatcher (\<^verbatim>\<open>run_symbolic_function\<close>, lines 417-467)\<close>

definition node_output :: "Node \<Rightarrow> error + TorchValueID" where
  "node_output nd =
     (case outputs nd of
        [v] \<Rightarrow> Inr v
      | _ \<Rightarrow> Inl (RuntimeError ''output() of a node that has not one output''))"

definition kind_str :: "string \<times> string \<Rightarrow> string" where
  "kind_str k = fst k @ ''::'' @ snd k"

text \<open>Lines 418-425: the keyword arguments, built from the node's attributes.\<close>

fun symbolic_attrs ::
  "env \<Rightarrow> Graph \<Rightarrow> Node \<Rightarrow> (string \<times> attribute) list \<Rightarrow> error + (string \<times> pyobj) list"
where
  "symbolic_attrs env g nd [] = Inr []"
| "symbolic_attrs env g nd ((a, at) # rest) =
     bind_res
       (if a = ''value'' \<and> kindOf at = ''ival''
        then bind_res (node_output nd) (\<lambda>v. Inr (toIValue env g v))
        else Inr (attr_val at))
       (\<lambda>x. bind_res (symbolic_attrs env g nd rest) (\<lambda>xs. Inr ((a, x) # xs)))"

definition del_inplace :: "(string \<times> pyobj) list \<Rightarrow> (string \<times> pyobj) list" where
  "del_inplace kw = filter (\<lambda>p. fst p \<noteq> ''inplace'') kw"

definition as_list :: "sym_outs \<Rightarrow> TorchValueID list" where
  "as_list r = (case r of OneValue v \<Rightarrow> [v] | ManyValues vs \<Rightarrow> vs)"

text \<open>
  Lines 418-431: the call of the symbolic function. The result is the list \<^verbatim>\<open>sym_outs\<close> and
  the graph as the symbolic function left it.
\<close>

definition call_symbolic ::
  "env \<Rightarrow> Exporter \<Rightarrow> block_ref \<Rightarrow> node_id \<Rightarrow> sym_func \<Rightarrow> error + (TorchValueID list \<times> Graph)"
where
  "call_symbolic env self b n sym_f =
     bind_res (get_node (graph_of self) n) (\<lambda>nd.
     bind_res (symbolic_attrs env (graph_of self) nd (attributes nd)) (\<lambda>kw.
     bind_res (sym_f (graph_of self) b
                 (map ArgValue (inputs nd)
                  @ (if kind nd = (''prim'', ''PythonOp'') then map ArgObj (scalar_args nd) else []))
                 (del_inplace kw))
       (\<lambda>(r, g1). Inr (as_list r, g1))))"

text \<open>
  \<^verbatim>\<open>list_added_nodes\<close> (lines 434-449): the nodes reached backwards from the new outputs,
  stopping at the inputs of the old node. The result is a set; the order of \<^verbatim>\<open>list(ret)\<close>
  shows only in the log. \<^verbatim>\<open>target_vals.pop()\<close> takes the last element.
\<close>

fun list_added_first ::
  "Graph \<Rightarrow> TorchValueID set \<Rightarrow> node_id set \<Rightarrow> TorchValueID list \<Rightarrow> TorchValueID list
   \<Rightarrow> error + (node_id set \<times> TorchValueID list)"
where
  "list_added_first g start ret target [] = Inr (ret, target)"
| "list_added_first g start ret target (i # rest) =
     (if i \<in> start then list_added_first g start ret target rest
      else bind_res (get_value g i) (\<lambda>r.
           bind_res (get_node g (vnode r)) (\<lambda>nd.
             list_added_first g start (insert (vnode r) ret) (target @ inputs nd) rest)))"

partial_function (option) list_added_loop ::
  "Graph \<Rightarrow> TorchValueID set \<Rightarrow> node_id set \<Rightarrow> TorchValueID list \<Rightarrow> (error + node_id set) option"
where
  "list_added_loop g start ret target =
     (if target = [] then Some (Inr ret)
      else if last target \<in> start then list_added_loop g start ret (butlast target)
      else (case get_value g (last target) of
              Inl e \<Rightarrow> Some (Inl e)
            | Inr r \<Rightarrow>
                (case get_node g (vnode r) of
                   Inl e \<Rightarrow> Some (Inl e)
                 | Inr nd \<Rightarrow>
                     list_added_loop g start (insert (vnode r) ret)
                       (butlast target @ inputs nd))))"

declare list_added_loop.simps [code]

definition list_added_nodes ::
  "Graph \<Rightarrow> Node \<Rightarrow> TorchValueID list \<Rightarrow> (error + node_id set) option"
where
  "list_added_nodes g nd outs =
     (case list_added_first g (set (inputs nd)) {} outs outs of
        Inl e \<Rightarrow> Some (Inl e)
      | Inr (ret, target) \<Rightarrow> list_added_loop g (set (inputs nd)) ret target)"

text \<open>\<^verbatim>\<open>onnx_node_doc_string\<close> (lines 74-85).\<close>

definition onnx_node_doc_string :: "env \<Rightarrow> Graph \<Rightarrow> node_id \<Rightarrow> node_id \<Rightarrow> Node \<Rightarrow> string" where
  "onnx_node_doc_string env g onnx_node torch_node nd =
     ''## Symbolic node'' @ [CHR 0x0A] @ repr_node env g onnx_node @ [CHR 0x0A]
     @ ''## Original node'' @ [CHR 0x0A] @ repr_node env g torch_node @ [CHR 0x0A]
     @ ''## Scope'' @ [CHR 0x0A] @ scopeName nd @ [CHR 0x0A]
     @ ''## Source Range'' @ [CHR 0x0A] @ ''```'' @ [CHR 0x0A] @ sourceRange nd @ [CHR 0x0A]
     @ ''```'' @ [CHR 0x0A]"

text \<open>Lines 457-461: the documentation and the scope of the added nodes.\<close>

definition document_added :: "env \<Rightarrow> Exporter \<Rightarrow> Graph \<Rightarrow> node_id \<Rightarrow> Node \<Rightarrow> node_id set \<Rightarrow> Exporter" where
  "document_added env self g1 n nd sym_nodes =
     self\<lparr>node_doc_string :=
            (\<lambda>k. if k \<in> sym_nodes \<and> \<not> strip_doc_string self
                 then Some (onnx_node_doc_string env g1 k n nd)
                 else node_doc_string self k),
          node_scope :=
            (\<lambda>k. if k \<in> sym_nodes then Some (scopeName nd) else node_scope self k)\<rparr>"

text \<open>
  Lines 463-467: every old output is replaced by the new output at its position, the
  assertion checks that the old output has no use left, and the new output takes the
  metadata of the old one.
\<close>

fun replace_uses ::
  "env \<Rightarrow> Graph \<Rightarrow> (TorchValueID \<times> TorchValueID) list \<Rightarrow> (error + Graph) option"
where
  "replace_uses env g [] = Some (Inr g)"
| "replace_uses env g ((old_out, new_out) # rest) =
     (case replaceAllUsesWith g old_out new_out of
        None \<Rightarrow> None
      | Some g1 \<Rightarrow>
          if uses g1 old_out \<noteq> [] then Some (Inl (AssertionError ''len(old_out.uses()) == 0''))
          else (case copyMetadata env g1 new_out old_out of
                  Inl e \<Rightarrow> Some (Inl e)
                | Inr g2 \<Rightarrow> replace_uses env g2 rest))"

definition run_symbolic_function ::
  "env \<Rightarrow> Exporter \<Rightarrow> block_ref \<Rightarrow> node_id \<Rightarrow> sym_func \<Rightarrow> (error + Exporter) option"
where
  "run_symbolic_function env self b n sym_f =
     bind_out (lift_res (call_symbolic env self b n sym_f)) (\<lambda>(sym_outs, g1).
     bind_out (lift_res (get_node g1 n)) (\<lambda>nd.
       if length sym_outs \<noteq> length (outputs nd)
       then Some (Inl (AssertionError ''len(sym_outs) == n.outputsSize()''))
       else
     bind_out (list_added_nodes g1 nd sym_outs) (\<lambda>sym_nodes.
       let self1 = log self (''Converting node '' @ kind_str (kind nd)) (repr_node env g1 n) False;
           self2 = (if sym_nodes \<noteq> {}
                    then log self1 (''Converted node '' @ kind_str (kind nd))
                           (repr_nodes env g1 sym_nodes) False
                    else self1);
           self3 = document_added env self2 g1 n nd sym_nodes
       in
     bind_out (replace_uses env g1 (zip (outputs nd) sym_outs)) (\<lambda>g2.
       Some (Inr (self3\<lparr>graph_of := g2\<rparr>))))))"

section \<open>The graph optimizer (\<^verbatim>\<open>optimize\<close>, lines 197-277)\<close>

definition run_jit_pass :: "env \<Rightarrow> string \<Rightarrow> Graph \<Rightarrow> error + Graph" where
  "run_jit_pass env p gr = bind_res (jit_pass env p gr) (jit_pass env ''lint'')"

text \<open>Lines 203-259: the passes before the inputs are renamed.\<close>

definition optimize_passes :: "env \<Rightarrow> Exporter \<Rightarrow> Graph \<Rightarrow> error + Graph" where
  "optimize_passes env self gr =
     bind_res (run_jit_pass env ''inline_fork_wait'' gr) (\<lambda>g1.
     bind_res (if torch_constant_prop self then run_jit_pass env ''constant_propagation'' g1
               else Inr g1) (\<lambda>g2.
     bind_res (run_jit_pass env ''dce'' g2) (\<lambda>g3.
     bind_res (run_jit_pass env ''canonicalize_graph_fuser_ops'' g3) (\<lambda>g4.
     bind_res (jit_pass env ''peephole'' g4) (\<lambda>g5.
     bind_res (run_jit_pass env ''fuse_addmm'' g5) (\<lambda>g6.
     bind_res (jit_pass env ''peephole'' g6) (\<lambda>g7.
     bind_res (jit_pass env ''lower_all_tuples'' g7) (\<lambda>g8.
     bind_res (jit_pass env ''onnx_preprocess'' g8) (\<lambda>g9.
     bind_res (jit_pass env ''lint'' g9) (\<lambda>g10.
     bind_res (jit_pass env ''prepare_division_for_onnx'' g10) (\<lambda>g11.
     bind_res (jit_pass env ''onnx_remove_print'' g11) (\<lambda>g12.
     bind_res (jit_pass env ''onnx_preprocess_caffe2'' g12) (\<lambda>g13.
     bind_res
       (if operator_export_type self = ONNX_ATEN_FALLBACK
        then bind_res (jit_pass_vars env ''onnx_unpack_quantized_weights'' g13 (vars self)) (\<lambda>h1.
             bind_res (jit_pass_vars env ''onnx_quantization_insert_permutes'' h1 (vars self)) (\<lambda>h2.
               jit_pass env ''custom_pattern_based_rewrite_graph'' h2))
        else Inr g13) (\<lambda>g14.
       jit_pass env ''erase_number_types'' g14))))))))))))))"

text \<open>
  Lines 266-270: the loop over the names. An index past the end of \<^verbatim>\<open>inputs\<close> raises
  \<^verbatim>\<open>IndexError\<close>.
\<close>

fun rename_inputs ::
  "env \<Rightarrow> Exporter \<Rightarrow> TorchValueID list \<Rightarrow> Graph \<Rightarrow> nat \<Rightarrow> nat \<Rightarrow> string list
   \<Rightarrow> error + (Graph \<times> nat)"
where
  "rename_inputs env self ins gr idx self_count [] = Inr (gr, self_count)"
| "rename_inputs env self ins gr idx self_count (n # rest) =
     (if idx + self_count \<ge> length ins then Inl IndexError
      else if Some (ins ! (idx + self_count)) = self_id self
      then rename_inputs env self ins gr (Suc idx) (Suc self_count) rest
      else bind_res (setDebugName env gr (ins ! (idx + self_count)) n) (\<lambda>g1.
             rename_inputs env self ins g1 (Suc idx) self_count rest))"

text \<open>
  Lines 261-272. \<^verbatim>\<open>self.input_names.copy()\<close> is evaluated first: on \<^verbatim>\<open>None\<close> it raises
  \<^verbatim>\<open>AttributeError\<close>, so the test \<^verbatim>\<open>input_names is not None\<close> that follows sees a list.
  The result is the graph and the local list \<^verbatim>\<open>input_names\<close>.
\<close>

definition rename_graph_inputs ::
  "env \<Rightarrow> Exporter \<Rightarrow> Graph \<Rightarrow> error + (Graph \<times> string list)"
where
  "rename_graph_inputs env self gr =
     (case input_names self of
        None \<Rightarrow> Inl (AttributeError ''NoneType object has no attribute copy'')
      | Some names \<Rightarrow>
          bind_res (get_node gr (param_node (top_block gr))) (\<lambda>pn.
            if length (outputs pn) \<noteq> length names + (if self_id self = None then 0 else 1)
            then Inl (AssertionError ''len(list(graph.inputs())) == len(input_names) + self'')
            else
          bind_res (rename_inputs env self (outputs pn) gr 0 0 names) (\<lambda>(g1, self_count).
            if self_count > 0
            then bind_res (get_value g1 (hd (outputs pn))) (\<lambda>r.
                   Inr (g1, debugName (hd (outputs pn)) r # names))
            else Inr (g1, names))))"

definition optimize :: "env \<Rightarrow> Exporter \<Rightarrow> Graph \<Rightarrow> error + Graph" where
  "optimize env self gr =
     bind_res (optimize_passes env self gr) (\<lambda>g1.
     bind_res (rename_graph_inputs env self g1) (\<lambda>(g2, names).
       jit_pass_onnx_set_dynamic_input_shape env g2 (dynamic_axes self) names))"

section \<open>The handlers and \<^verbatim>\<open>generate_onnx_node\<close> (lines 294-415, 469-488)\<close>

definition hasAttribute :: "Node \<Rightarrow> string \<Rightarrow> bool" where
  "hasAttribute nd a = (a \<in> set (map fst (attributes nd)))"

text \<open>\<^verbatim>\<open>n.s(name)\<close>: the string attribute of that name; torch raises when there is none.\<close>

definition attr_s :: "Node \<Rightarrow> string \<Rightarrow> error + string" where
  "attr_s nd a =
     (case map_of (attributes nd) a of
        None \<Rightarrow> Inl (RuntimeError ''no such attribute'')
      | Some at \<Rightarrow>
          (case attr_val at of
             PyStr x \<Rightarrow> if kindOf at = ''s'' then Inr x else Inl (RuntimeError ''not a string attribute'')
           | _ \<Rightarrow> Inl (RuntimeError ''not a string attribute'')))"

definition node_input :: "Node \<Rightarrow> error + TorchValueID" where
  "node_input nd =
     (case inputs nd of
        [v] \<Rightarrow> Inr v
      | _ \<Rightarrow> Inl (RuntimeError ''input() of a node that has not one input''))"

definition is_self :: "Exporter \<Rightarrow> TorchValueID \<Rightarrow> bool" where
  "is_self self v = (Some v = self_id self)"

text \<open>\<^verbatim>\<open>handle_constant\<close> (lines 294-319); \<^verbatim>\<open>gen_const\<close> builds nodes through \<^verbatim>\<open>g.op\<close>.\<close>

definition handle_constant ::
  "env \<Rightarrow> Exporter \<Rightarrow> block_ref \<Rightarrow> node_id \<Rightarrow> (error + Exporter) option"
where
  "handle_constant env self b n =
     bind_out (lift_res (get_node (graph_of self) n)) (\<lambda>nd.
       if \<not> hasAttribute nd ''value'' then Some (Inr self)
       else run_symbolic_function env self b n (gen_const env n))"

text \<open>\<^verbatim>\<open>handle_getattr\<close> (lines 321-334).\<close>

definition handle_getattr ::
  "env \<Rightarrow> Exporter \<Rightarrow> block_ref \<Rightarrow> node_id \<Rightarrow> (error + Exporter) option"
where
  "handle_getattr env self b n =
     lift_res (
     bind_res (get_node (graph_of self) n) (\<lambda>nd.
     bind_res (node_input nd) (\<lambda>i.
     bind_res
       (if is_self self i
        then bind_res (attr_s nd ''name'') (\<lambda>nm.
             bind_res (node_output nd) (\<lambda>out. Inr (out, nm)))
        else (case attrs self i of
                None \<Rightarrow> Inl (KeyError (str_nat i))
              | Some base \<Rightarrow>
                  bind_res (attr_s nd ''name'') (\<lambda>nm.
                  bind_res (node_output nd) (\<lambda>out. Inr (out, base @ ''.'' @ nm)))))
       (\<lambda>(out, var_name).
          let self1 = self\<lparr>attrs := (attrs self)(out \<mapsto> var_name)\<rparr> in
          (case vars self var_name of
             None \<Rightarrow> Inr self1
           | Some t \<Rightarrow>
               bind_res (get_value (graph_of self) out) (\<lambda>r.
                 Inr (self1\<lparr>graph_of := (graph_of self)
                        \<lparr>vals := (vals (graph_of self))
                           (out \<mapsto> r\<lparr>vtype := Some (infer_type env t)\<rparr>)\<rparr>\<rparr>)))))))"

text \<open>\<^verbatim>\<open>handle_list_construct\<close> (lines 336-361).\<close>

definition handle_list_construct ::
  "env \<Rightarrow> Exporter \<Rightarrow> block_ref \<Rightarrow> node_id \<Rightarrow> (error + Exporter) option"
where
  "handle_list_construct env self b n =
     bind_out (lift_res (get_node (graph_of self) n)) (\<lambda>nd.
     bind_out (lift_res (node_output nd)) (\<lambda>out.
     bind_out (lift_res (get_value (graph_of self) out)) (\<lambda>r.
       (case vtype r of
          Some (ListType e) \<Rightarrow>
            if length (inputs nd) > 0 \<and> kind_of_type e = ''IntType''
            then run_symbolic_function env self b n (gen_concat env)
            else run_symbolic_function env self b n (gen_seq env)
        | _ \<Rightarrow> Some (Inl (AttributeError ''getElementType''))))))"

text \<open>
  \<^verbatim>\<open>symbolic_function\<close> (lines 395-415). The result is \<open>Inr None\<close> when no symbolic
  function is registered for the operator under the opset version.
\<close>

definition symbolic_function :: "env \<Rightarrow> Exporter \<Rightarrow> node_id \<Rightarrow> error + sym_func option" where
  "symbolic_function env self n =
     bind_res (get_node (graph_of self) n) (\<lambda>nd.
       let ns = fst (kind nd);
           op0 = snd (kind nd);
           op = (if op0 \<noteq> [] \<and> last op0 = CHR ''_'' then butlast op0 else op0)
       in
       if ns = ''prim'' \<and> op = ''PythonOp''
       then (let py = pyobj env (graph_of self) n in
             if \<not> is_autograd_function py
             then Inl (AssertionError ''issubclass(pyobj, torch.autograd.Function)'')
             else (case symbolic py of
                     None \<Rightarrow> Inl (AssertionError ''symbolic method not supported'')
                   | Some f \<Rightarrow> Inr (Some f)))
       else Inr (registered_op env (if ns = ''prim'' then ''prim_'' @ op else op)
                   (opset_version self)))"

text \<open>The dictionary \<^verbatim>\<open>handler\<close> (lines 388-393).\<close>

datatype handler_fn = HandleConstant | HandleGetattr | HandleListConstruct | HandleIf

definition handler :: "string \<times> string \<rightharpoonup> handler_fn" where
  "handler =
     [(''prim'', ''Constant'') \<mapsto> HandleConstant,
      (''prim'', ''GetAttr'') \<mapsto> HandleGetattr,
      (''prim'', ''ListConstruct'') \<mapsto> HandleListConstruct,
      (''prim'', ''If'') \<mapsto> HandleIf]"

text \<open>Lines 475-488: the path of a node kind that has no handler.\<close>

definition lower_by_symbolic ::
  "env \<Rightarrow> Exporter \<Rightarrow> block_ref \<Rightarrow> node_id \<Rightarrow> (error + Exporter) option"
where
  "lower_by_symbolic env self b n =
     bind_out (lift_res (symbolic_function env self n)) (\<lambda>f.
       let f1 = (if operator_export_type self \<in> {ONNX_ATEN, ONNX_FALLTHROUGH}
                    \<or> (operator_export_type self = ONNX_ATEN_FALLBACK \<and> f = None)
                 then Some (gen_aten_node env n) else f)
       in (case f1 of
             None \<Rightarrow> Some (Inl (AssertionError ''Symbolic function not found''))
           | Some sf \<Rightarrow> run_symbolic_function env self b n sf))"

text \<open>
  \<^verbatim>\<open>handle_if\<close> (lines 363-386), its documentation string, and the move of the node to the
  end of its block (\<^verbatim>\<open>n.moveBefore(g.return_node())\<close>; torch asserts that the node is a node
  of that block).
\<close>

definition if_doc_str :: "env \<Rightarrow> Graph \<Rightarrow> node_id \<Rightarrow> Node \<Rightarrow> string" where
  "if_doc_str env gr n nd =
     [CHR 0x0A] @ ''## Original node'' @ [CHR 0x0A] @ repr_node env gr n @ [CHR 0x0A]
     @ ''## Scope'' @ [CHR 0x0A] @ scopeName nd @ [CHR 0x0A]
     @ ''## Source Range'' @ [CHR 0x0A] @ ''```'' @ [CHR 0x0A] @ sourceRange nd @ [CHR 0x0A]
     @ ''```'' @ [CHR 0x0A]"

definition set_block :: "Graph \<Rightarrow> block_ref \<Rightarrow> Block \<Rightarrow> Graph" where
  "set_block gr r blk =
     (case r of
        TopBlock \<Rightarrow> gr\<lparr>top_block := blk\<rparr>
      | NodeBlock m i \<Rightarrow>
          gr\<lparr>nodes := (nodes gr)[m := (nodes gr ! m)\<lparr>blocks := (blocks (nodes gr ! m))[i := blk]\<rparr>]\<rparr>)"

definition move_before_return :: "Graph \<Rightarrow> block_ref \<Rightarrow> node_id \<Rightarrow> error + Graph" where
  "move_before_return gr b n =
     bind_res (get_block gr b) (\<lambda>blk.
       if n \<notin> set (block_nodes blk) then Inl (RuntimeError ''moveBefore in another block'')
       else Inr (set_block gr b
                   (blk\<lparr>block_nodes := filter (\<lambda>m. m \<noteq> n) (block_nodes blk) @ [n]\<rparr>)))"

text \<open>
  \<^verbatim>\<open>generate_onnx_node\<close> (lines 469-488), with \<^verbatim>\<open>handle_if\<close>, which calls it on every node
  of every block of the node. The first argument bounds the depth of nested blocks the
  recursion may enter: without it nothing in the store says the nesting is finite. The
  result is \<open>None\<close> when the bound is reached.
\<close>

function generate_onnx_node ::
      "nat \<Rightarrow> env \<Rightarrow> Exporter \<Rightarrow> block_ref \<Rightarrow> node_id \<Rightarrow> (error + Exporter) option"
  and generate_onnx_nodes ::
      "nat \<Rightarrow> env \<Rightarrow> Exporter \<Rightarrow> block_ref \<Rightarrow> node_id list \<Rightarrow> (error + Exporter) option"
  and handle_if_blocks ::
      "nat \<Rightarrow> env \<Rightarrow> Exporter \<Rightarrow> block_ref list \<Rightarrow> (error + Exporter) option"
where
  "generate_onnx_node fuel env self b n =
     bind_out (lift_res (get_node (graph_of self) n)) (\<lambda>nd.
       (case handler (kind nd) of
          Some HandleConstant \<Rightarrow> handle_constant env self b n
        | Some HandleGetattr \<Rightarrow> handle_getattr env self b n
        | Some HandleListConstruct \<Rightarrow> handle_list_construct env self b n
        | Some HandleIf \<Rightarrow>
            (case fuel of
               0 \<Rightarrow> None
             | Suc k \<Rightarrow>
                 bind_out (handle_if_blocks k env self
                             (map (NodeBlock n) [0 ..< length (blocks nd)])) (\<lambda>self1.
                   let self2 = (if \<not> strip_doc_string self1
                                then self1\<lparr>node_doc_string := (node_doc_string self1)
                                        (n \<mapsto> if_doc_str env (graph_of self) n nd)\<rparr>
                                else self1)
                   in bind_out (lift_res (move_before_return (graph_of self2) b n)) (\<lambda>g2.
                        Some (Inr (self2\<lparr>graph_of := g2\<rparr>)))))
        | None \<Rightarrow> lower_by_symbolic env self b n))"
| "generate_onnx_nodes fuel env self b [] = Some (Inr self)"
| "generate_onnx_nodes fuel env self b (n # ns) =
     bind_out (generate_onnx_node fuel env self b n) (\<lambda>self1.
       generate_onnx_nodes fuel env self1 b ns)"
| "handle_if_blocks fuel env self [] = Some (Inr self)"
| "handle_if_blocks fuel env self (blk # rest) =
     bind_out (lift_res (get_block (graph_of self) blk)) (\<lambda>bl.
     bind_out (generate_onnx_nodes fuel env self blk (block_nodes bl)) (\<lambda>self1.
       handle_if_blocks fuel env self1 rest))"
  by pat_completeness auto

termination
  by (relation "inv_image (less_than <*lex*> less_than <*lex*> less_than)
        (\<lambda>x. case x of
               Inl (fuel, env, self, b, n) \<Rightarrow> (fuel, 0 :: nat, 0 :: nat)
             | Inr (Inl (fuel, env, self, b, ns)) \<Rightarrow> (fuel, 1, length ns)
             | Inr (Inr (fuel, env, self, bs)) \<Rightarrow> (fuel, 2, length bs))")
     auto

section \<open>The emitter (\<^verbatim>\<open>generate_proto_nodes\<close>, lines 503-634)\<close>

text \<open>
  The two dictionaries the emitter fills, and the warnings it issues. \<^verbatim>\<open>onnx_vars\<close> keeps
  the order of insertion, which is the order of the initializers.
\<close>

record emit_state =
  onnx_vars :: "(TorchValueID \<times> TensorProto) list"
  val_tab :: "TorchValueID \<rightharpoonup> ONNXValueID"
  warnings :: "string list"

text \<open>\<^verbatim>\<open>_remove_prefix\<close> (lines 70-71) and the last segment of \<^verbatim>\<open>scope.split("/")\<close>.\<close>

definition remove_prefix :: "string \<Rightarrow> string \<Rightarrow> string" where
  "remove_prefix text prefix =
     (if take (length prefix) text = prefix then drop (length prefix) text else text)"

definition last_segment :: "string \<Rightarrow> string" where
  "last_segment s = rev (takeWhile (\<lambda>c. c \<noteq> CHR ''/'') (rev s))"

text \<open>
  \<^verbatim>\<open>value_name\<close> (lines 517-526). \<^verbatim>\<open>v.node()\<close> is a node for every value of a graph, so
  the alternative \<^verbatim>\<open>v.uses()[0].user\<close> is never taken.
\<close>

definition value_name :: "Exporter \<Rightarrow> TorchValueID \<Rightarrow> error + ONNXValueID" where
  "value_name self v =
     (case attrs self v of
        Some a \<Rightarrow> Inr a
      | None \<Rightarrow>
          bind_res (get_value (graph_of self) v) (\<lambda>r.
          bind_res (get_node (graph_of self) (vnode r)) (\<lambda>nd.
            let scope0 = (case node_scope self (vnode r) of
                            Some sc \<Rightarrow> sc | None \<Rightarrow> scopeName nd);
                scope1 = remove_prefix (last_segment scope0) ''__module.'';
                scope = (if length scope1 > 0 then scope1 @ ''.'' else scope1)
            in Inr (scope @ debugName v r))))"

text \<open>\<^verbatim>\<open>node_name\<close> (lines 511-515), given the counter after its increment.\<close>

definition node_name :: "Node \<Rightarrow> nat \<Rightarrow> string" where
  "node_name nd counter = snd (kind nd) @ ''_'' @ str_nat counter"

text \<open>\<^verbatim>\<open>assign_onnx_values\<close> (lines 595-605); the result holds the names appended.\<close>

fun assign_onnx_values ::
  "Exporter \<Rightarrow> (TorchValueID \<rightharpoonup> ONNXValueID) \<Rightarrow> TorchValueID list
   \<Rightarrow> error + (string list \<times> (TorchValueID \<rightharpoonup> ONNXValueID))"
where
  "assign_onnx_values self tab [] = Inr ([], tab)"
| "assign_onnx_values self tab (v # vs) =
     bind_res (value_name self v) (\<lambda>dflt.
       let k = (case tab v of Some x \<Rightarrow> x | None \<Rightarrow> dflt) in
       if (case tab v of Some x \<Rightarrow> x \<noteq> k | None \<Rightarrow> False)
       then Inl (AssertionError ''val_tab[_unique_id(v)] == k'')
       else bind_res (assign_onnx_values self (tab(v \<mapsto> k)) vs) (\<lambda>(ks, tab1).
              Inr (k # ks, tab1)))"

text \<open>Lines 578-588: the names and the initializers of the inputs of a node.\<close>

fun name_inputs :: "Exporter \<Rightarrow> emit_state \<Rightarrow> TorchValueID list \<Rightarrow> error + emit_state" where
  "name_inputs self st [] = Inr st"
| "name_inputs self st (i # rest) =
     (if is_self self i then name_inputs self st rest
      else
        bind_res
          (case attrs self i of
             None \<Rightarrow> Inr st
           | Some k \<Rightarrow>
               if i \<in> set (map fst (onnx_vars st)) then Inr st
               else (case vars self k of
                       None \<Rightarrow> Inl (KeyError k)
                     | Some t \<Rightarrow>
                         Inr (st\<lparr>onnx_vars := onnx_vars st @ [(i, tensor_to_proto t (Some k))]\<rparr>)))
          (\<lambda>st1.
        bind_res (value_name self i) (\<lambda>k.
          name_inputs self
            (if val_tab st1 i = None then st1\<lparr>val_tab := (val_tab st1)(i \<mapsto> k)\<rparr> else st1)
            rest)))"

text \<open>Lines 590-593: the names of the outputs of a node.\<close>

fun name_outputs :: "Exporter \<Rightarrow> emit_state \<Rightarrow> TorchValueID list \<Rightarrow> error + emit_state" where
  "name_outputs self st [] = Inr st"
| "name_outputs self st (out # rest) =
     bind_res (value_name self out) (\<lambda>k.
       name_outputs self
         (if val_tab st out = None then st\<lparr>val_tab := (val_tab st)(out \<mapsto> k)\<rparr> else st)
         rest)"

text \<open>Lines 624-629: the attributes of a node that is not a conditional.\<close>

definition node_attributes :: "Node \<Rightarrow> (string \<times> AttributeProto) list" where
  "node_attributes nd =
     map (\<lambda>(a, at).
            (a, case attr_val at of
                  PyTensor t \<Rightarrow> if kindOf at = ''t'' then AttrTensor (tensor_to_proto t None)
                                else AttrObj (attr_val at)
                | x \<Rightarrow> AttrObj x))
         (attributes nd)"

text \<open>
  Lines 559-565: at the root, the names the caller gave to the inputs. The result is the
  table and the number of \<^verbatim>\<open>self\<close> inputs skipped.
\<close>

fun apply_input_names ::
  "Exporter \<Rightarrow> string list \<Rightarrow> (TorchValueID \<rightharpoonup> ONNXValueID) \<Rightarrow> nat \<Rightarrow> nat
   \<Rightarrow> TorchValueID list \<Rightarrow> error + ((TorchValueID \<rightharpoonup> ONNXValueID) \<times> nat)"
where
  "apply_input_names self names tab idx self_count [] = Inr (tab, self_count)"
| "apply_input_names self names tab idx self_count (v # vs) =
     (if is_self self v then apply_input_names self names tab (Suc idx) (Suc self_count) vs
      else if idx - self_count < length names
      then apply_input_names self names (tab(v \<mapsto> names ! (idx - self_count)))
             (Suc idx) self_count vs
      else Inl IndexError)"

text \<open>
  Lines 566-572: at the root, the names the caller gave to the outputs. The loop stops at
  the first index that has no name.
\<close>

fun apply_output_names ::
  "string list \<Rightarrow> (TorchValueID \<rightharpoonup> ONNXValueID) \<Rightarrow> nat \<Rightarrow> TorchValueID list
   \<Rightarrow> (TorchValueID \<rightharpoonup> ONNXValueID)"
where
  "apply_output_names names tab idx [] = tab"
| "apply_output_names names tab idx (v # vs) =
     (if idx \<ge> length names then tab
      else apply_output_names names (tab(v \<mapsto> names ! idx)) (Suc idx) vs)"

definition block_inputs :: "Graph \<Rightarrow> Block \<Rightarrow> error + TorchValueID list" where
  "block_inputs gr blk = bind_res (get_node gr (param_node blk)) (\<lambda>nd. Inr (outputs nd))"

definition block_outputs :: "Graph \<Rightarrow> Block \<Rightarrow> error + TorchValueID list" where
  "block_outputs gr blk = bind_res (get_node gr (return_node blk)) (\<lambda>nd. Inr (inputs nd))"

text \<open>Lines 559-565, the names of the inputs with the assertion on their number.\<close>

definition root_input_names :: "Exporter \<Rightarrow> emit_state \<Rightarrow> TorchValueID list \<Rightarrow> error + emit_state" where
  "root_input_names self st ins =
     (case input_names self of
        None \<Rightarrow> Inr st
      | Some names \<Rightarrow>
          bind_res (apply_input_names self names (val_tab st) 0 0 ins) (\<lambda>(tab, self_count).
            if length ins - self_count \<noteq> length names
            then Inl (AssertionError
                   ''(len(list(g.inputs())) - self_count) == len(self.input_names)'')
            else Inr (st\<lparr>val_tab := tab\<rparr>)))"

text \<open>
  Lines 566-572, the names of the outputs. A number of names that differs from the number
  of outputs gives a warning; nothing here raises.
\<close>

definition root_output_names :: "Exporter \<Rightarrow> emit_state \<Rightarrow> TorchValueID list \<Rightarrow> emit_state" where
  "root_output_names self st outs =
     (case output_names self of
        None \<Rightarrow> st
      | Some names \<Rightarrow>
          st\<lparr>val_tab := apply_output_names names (val_tab st) 0 outs,
             warnings := warnings st @
               (if length names \<noteq> length outs
                then [''Specified output_names count and graph outputs count differ'']
                else [])\<rparr>)"

text \<open>Lines 558-572: what the emitter does in the root graph only.\<close>

definition root_names :: "Exporter \<Rightarrow> Block \<Rightarrow> emit_state \<Rightarrow> error + emit_state" where
  "root_names self blk st =
     bind_res (block_inputs (graph_of self) blk) (\<lambda>ins.
     bind_res (block_outputs (graph_of self) blk) (\<lambda>outs.
     bind_res (root_input_names self st ins) (\<lambda>st1.
       Inr (root_output_names self st1 outs))))"

text \<open>The value infos of the inputs or outputs of a block (lines 530-541).\<close>

fun branch_values ::
  "env \<Rightarrow> Exporter \<Rightarrow> (TorchValueID \<rightharpoonup> ONNXValueID) \<Rightarrow> TorchValueID list
   \<Rightarrow> error + ValueInfoProto list"
where
  "branch_values env self tab [] = Inr []"
| "branch_values env self tab (i # rest) =
     (case tab i of
        None \<Rightarrow> Inl (KeyError (str_nat i))
      | Some nm \<Rightarrow>
          bind_res (branch_values env self tab rest) (\<lambda>vs.
            Inr (\<lparr>vi_name = nm, vi_type = None,
                  vi_doc_string = (if \<not> strip_doc_string self
                                   then repr_value env (graph_of self) i else [])\<rparr> # vs)))"

text \<open>
  Lines 574-593 for one node: \<open>None\<close> when the node is skipped (a \<^verbatim>\<open>prim::GetAttr\<close>, or
  an \<^verbatim>\<open>onnx::Constant\<close> whose output has no use), else the node and the state after its
  inputs and outputs are named.
\<close>

definition begin_node :: "Exporter \<Rightarrow> emit_state \<Rightarrow> node_id \<Rightarrow> error + (Node \<times> emit_state) option" where
  "begin_node self st n =
     bind_res (get_node (graph_of self) n) (\<lambda>nd.
       if kind nd = (''prim'', ''GetAttr'') then Inr None
       else
     bind_res (if kind nd = (''onnx'', ''Constant'')
               then bind_res (node_output nd) (\<lambda>out. Inr (uses (graph_of self) out = []))
               else Inr False) (\<lambda>unused_constant.
       if unused_constant then Inr None
       else
     bind_res (name_inputs self st (inputs nd)) (\<lambda>st1.
     bind_res (name_outputs self st1 (outputs nd)) (\<lambda>st2.
       Inr (Some (nd, st2))))))"

text \<open>Lines 611-614 and 621-629: the documentation and, off a conditional, the attributes.\<close>

definition if_doc :: "env \<Rightarrow> Exporter \<Rightarrow> node_id \<Rightarrow> string" where
  "if_doc env self n =
     (case node_doc_string self n of
        Some d \<Rightarrow> ''## Symbolic node'' @ [CHR 0x0A] @ repr_node env (graph_of self) n
                  @ [CHR 0x0A] @ d
      | None \<Rightarrow> [])"

definition plain_attributes ::
  "Exporter \<Rightarrow> node_id \<Rightarrow> Node \<Rightarrow> error + (string \<times> (string \<times> AttributeProto) list)"
where
  "plain_attributes self n nd =
     (if length (blocks nd) \<noteq> 0
      then Inl (AssertionError ''Node with block needs to be handled separately'')
      else Inr (case node_doc_string self n of Some d \<Rightarrow> d | None \<Rightarrow> [], node_attributes nd))"

text \<open>Lines 630-632: the names of the inputs and outputs, and the finished node.\<close>

definition end_node ::
  "Exporter \<Rightarrow> Node \<Rightarrow> string \<Rightarrow> string \<Rightarrow> (string \<times> AttributeProto) list \<Rightarrow> emit_state
   \<Rightarrow> error + (NodeProto \<times> emit_state)"
where
  "end_node self nd nm doc as st =
     bind_res (assign_onnx_values self (val_tab st) (inputs nd)) (\<lambda>(ins, tab1).
     bind_res (assign_onnx_values self tab1 (outputs nd)) (\<lambda>(outs, tab2).
       Inr (NodeProto nm (snd (kind nd)) doc as ins outs, st\<lparr>val_tab := tab2\<rparr>)))"

text \<open>The subgraph of a block (lines 530-552), given the nodes emitted for the block.\<close>

definition branch_graph ::
  "env \<Rightarrow> Exporter \<Rightarrow> string \<Rightarrow> string \<Rightarrow> block_ref \<Rightarrow> NodeProto list \<Rightarrow> emit_state
   \<Rightarrow> error + GraphProto"
where
  "branch_graph env self nm doc b branch_nodes st =
     bind_res (get_block (graph_of self) b) (\<lambda>blk.
     bind_res (block_inputs (graph_of self) blk) (\<lambda>ins.
     bind_res (branch_values env self (val_tab st) ins) (\<lambda>branch_inputs.
     bind_res (block_outputs (graph_of self) blk) (\<lambda>outs.
     bind_res (branch_values env self (val_tab st) outs) (\<lambda>branch_outputs.
       Inr (GraphProto nm branch_nodes branch_inputs branch_outputs [] doc))))))"

text \<open>
  \<^verbatim>\<open>generate_proto_nodes\<close>, the loop over the nodes of the block (lines 573-632), and
  \<^verbatim>\<open>block2subgraph\<close> (lines 528-552) for the blocks of a conditional, paired with the
  attribute names by the \<^verbatim>\<open>zip\<close> of line 617. The first argument bounds the depth of nested
  blocks, as in \<open>generate_onnx_node\<close>. The counter of node names is local to one call.
\<close>

function generate_proto_nodes ::
      "nat \<Rightarrow> env \<Rightarrow> Exporter \<Rightarrow> block_ref \<Rightarrow> emit_state
       \<Rightarrow> (error + (NodeProto list \<times> emit_state)) option"
  and proto_node_loop ::
      "nat \<Rightarrow> env \<Rightarrow> Exporter \<Rightarrow> node_id list \<Rightarrow> nat \<Rightarrow> emit_state \<Rightarrow> NodeProto list
       \<Rightarrow> (error + (NodeProto list \<times> emit_state)) option"
  and block2subgraphs ::
      "nat \<Rightarrow> env \<Rightarrow> Exporter \<Rightarrow> string \<Rightarrow> string \<Rightarrow> (string \<times> block_ref) list \<Rightarrow> emit_state
       \<Rightarrow> (error + ((string \<times> AttributeProto) list \<times> emit_state)) option"
where
  "generate_proto_nodes fuel env self b st =
     bind_out (lift_res (get_block (graph_of self) b)) (\<lambda>blk.
     bind_out (lift_res (if b = TopBlock then root_names self blk st else Inr st)) (\<lambda>st1.
       proto_node_loop fuel env self (block_nodes blk) 0 st1 []))"
| "proto_node_loop fuel env self [] counter st onnx_nodes = Some (Inr (onnx_nodes, st))"
| "proto_node_loop fuel env self (n # ns) counter st onnx_nodes =
     bind_out (lift_res (begin_node self st n)) (\<lambda>started.
       (case started of
          None \<Rightarrow> proto_node_loop fuel env self ns counter st onnx_nodes
        | Some (nd, st2) \<Rightarrow>
            bind_out
              (if kind nd = (''prim'', ''If'')
               then if length (blocks nd) \<noteq> 2
                    then Some (Inl (AssertionError ''len(blocks) == 2''))
                    else (case fuel of
                            0 \<Rightarrow> None
                          | Suc k \<Rightarrow>
                              bind_out (block2subgraphs k env self (node_name nd (Suc counter))
                                          (if_doc env self n)
                                          (zip [''then_branch'', ''else_branch'']
                                               (map (NodeBlock n) [0 ..< length (blocks nd)]))
                                          st2)
                                (\<lambda>(as, st3). Some (Inr (if_doc env self n, as, st3))))
               else bind_out (lift_res (plain_attributes self n nd))
                      (\<lambda>(doc, as). Some (Inr (doc, as, st2))))
              (\<lambda>(doc, as, st3).
            bind_out (lift_res (end_node self nd (node_name nd (Suc counter)) doc as st3))
              (\<lambda>(node, st4).
                 proto_node_loop fuel env self ns (Suc counter) st4 (onnx_nodes @ [node])))))"
| "block2subgraphs fuel env self nm doc [] st = Some (Inr ([], st))"
| "block2subgraphs fuel env self nm doc ((attr_name, b) # rest) st =
     bind_out (generate_proto_nodes fuel env self b st) (\<lambda>(branch_nodes, st1).
     bind_out (lift_res (branch_graph env self (nm @ ''_'' @ attr_name) doc b branch_nodes st1))
       (\<lambda>sub_g.
     bind_out (block2subgraphs fuel env self nm doc rest st1) (\<lambda>(as, st2).
       Some (Inr ((attr_name, AttrGraph sub_g) # as, st2)))))"
  by pat_completeness auto

termination
  by (relation "inv_image (less_than <*lex*> less_than <*lex*> less_than)
        (\<lambda>x. case x of
               Inl (fuel, env, self, b, st) \<Rightarrow> (fuel, 2 :: nat, 0 :: nat)
             | Inr (Inl (fuel, env, self, ns, c, st, acc)) \<Rightarrow> (fuel, 1, length ns)
             | Inr (Inr (fuel, env, self, nm, doc, bs, st)) \<Rightarrow> (fuel, 3, length bs))")
     auto

section \<open>Constant folding of graph inputs (\<^verbatim>\<open>generate_onnx\<close>, lines 649-667)\<close>

text \<open>A Python dictionary in insertion order: assignment, deletion.\<close>

definition dict_set :: "('k \<times> 'v) list \<Rightarrow> 'k \<Rightarrow> 'v \<Rightarrow> ('k \<times> 'v) list" where
  "dict_set d k v =
     (if k \<in> set (map fst d) then map (\<lambda>p. if fst p = k then (k, v) else p) d
      else d @ [(k, v)])"

definition dict_del :: "('k \<times> 'v) list \<Rightarrow> 'k \<Rightarrow> ('k \<times> 'v) list" where
  "dict_del d k = filter (\<lambda>p. fst p \<noteq> k) d"

text \<open>Line 654: the graph inputs by their debug names.\<close>

fun input_table_of ::
  "Graph \<Rightarrow> (string \<times> TorchValueID) list \<Rightarrow> TorchValueID list
   \<Rightarrow> error + (string \<times> TorchValueID) list"
where
  "input_table_of gr d [] = Inr d"
| "input_table_of gr d (i # rest) =
     bind_res (get_value gr i) (\<lambda>r. input_table_of gr (dict_set d (debugName i r) i) rest)"

text \<open>
  Lines 656-659: \<^verbatim>\<open>g.create("onnx::Constant", 1)\<close> with the tensor as attribute \<^verbatim>\<open>value\<close>,
  put first in the graph. The result is the graph, the new node and its output.
\<close>

definition prepend_constant :: "Graph \<Rightarrow> Tensor \<Rightarrow> Graph \<times> node_id \<times> TorchValueID" where
  "prepend_constant gr t =
     (gr\<lparr>nodes := nodes gr @
            [\<lparr>kind = (''onnx'', ''Constant''), inputs = [], outputs = [next_unique gr],
              attributes = [(''value'', \<lparr>kindOf = ''t'', attr_val = PyTensor t\<rparr>)],
              blocks = [], scopeName = [], sourceRange = [], scalar_args = []\<rparr>],
         vals := (vals gr)(next_unique gr \<mapsto>
                   \<lparr>unique_name = [], vtype = None, vnode = length (nodes gr)\<rparr>),
         next_unique := Suc (next_unique gr),
         top_block := (top_block gr)\<lparr>block_nodes := length (nodes gr) # block_nodes (top_block gr)\<rparr>\<rparr>,
      length (nodes gr), next_unique gr)"

text \<open>Lines 655-664: the loop over the folded tensors.\<close>

fun fold_loop ::
  "env \<Rightarrow> Exporter \<Rightarrow> (string \<times> TorchValueID) list \<Rightarrow> (string \<times> Tensor) list
   \<Rightarrow> (error + (Exporter \<times> (string \<times> TorchValueID) list)) option"
where
  "fold_loop env self input_table [] = Some (Inr (self, input_table))"
| "fold_loop env self input_table ((k, t) # rest) =
     (case prepend_constant (graph_of self) t of (g1, c_node, c) \<Rightarrow>
        (case map_of input_table k of
           None \<Rightarrow> Some (Inl (KeyError k))
         | Some v \<Rightarrow>
             let self1 = self\<lparr>node_doc_string := (node_doc_string self)
                           (c_node \<mapsto> ''Constant folded node: '' @ repr_value env g1 v)\<rparr>
             in (case replaceAllUsesWith g1 v c of
                   None \<Rightarrow> None
                 | Some g2 \<Rightarrow>
                     bind_out (lift_res (copyMetadata env g2 c v)) (\<lambda>g3.
                       fold_loop env (self1\<lparr>graph_of := g3\<rparr>) (dict_del input_table k) rest))))"

text \<open>
  \<^verbatim>\<open>g.eraseInput(i)\<close>: torch asserts that the graph has an input \<open>i\<close> and that the input
  has no use.
\<close>

definition eraseInput :: "Graph \<Rightarrow> nat \<Rightarrow> error + Graph" where
  "eraseInput gr i =
     bind_res (get_node gr (param_node (top_block gr))) (\<lambda>pn.
       if i \<ge> length (outputs pn) then Inl (RuntimeError ''eraseInput: no such input'')
       else if uses gr (outputs pn ! i) \<noteq> [] then Inl (RuntimeError ''eraseInput: input has uses'')
       else Inr (gr\<lparr>nodes := (nodes gr)[param_node (top_block gr) :=
                                pn\<lparr>outputs := take i (outputs pn) @ drop (Suc i) (outputs pn)\<rparr>],
                    vals := (vals gr)(outputs pn ! i := None)\<rparr>))"

text \<open>Lines 665-666: \<open>count\<close> times \<^verbatim>\<open>eraseInput(len(input_table))\<close>.\<close>

fun erase_inputs :: "Graph \<Rightarrow> nat \<Rightarrow> nat \<Rightarrow> error + Graph" where
  "erase_inputs gr i 0 = Inr gr"
| "erase_inputs gr i (Suc count) = bind_res (eraseInput gr i) (\<lambda>g1. erase_inputs g1 i count)"

definition graph_inputs :: "Graph \<Rightarrow> error + TorchValueID list" where
  "graph_inputs gr = block_inputs gr (top_block gr)"

definition graph_outputs :: "Graph \<Rightarrow> error + TorchValueID list" where
  "graph_outputs gr = block_outputs gr (top_block gr)"

text \<open>Lines 653-666, given the dictionary the folding pass returned.\<close>

definition fold_inputs ::
  "env \<Rightarrow> Exporter \<Rightarrow> (string \<times> Tensor) list \<Rightarrow> (error + Exporter) option"
where
  "fold_inputs env self folded =
     bind_out (lift_res (graph_inputs (graph_of self))) (\<lambda>ins.
     bind_out (lift_res (input_table_of (graph_of self) [] ins)) (\<lambda>input_table.
     bind_out (fold_loop env self input_table folded) (\<lambda>(self1, table1).
     bind_out (lift_res (graph_inputs (graph_of self1))) (\<lambda>ins1.
     bind_out (lift_res (erase_inputs (graph_of self1) (length table1)
                           (length ins1 - length table1))) (\<lambda>g2.
       Some (Inr (self1\<lparr>graph_of := g2\<rparr>)))))))"

section \<open>The model (\<^verbatim>\<open>generate_onnx\<close>, lines 636-719, and \<^verbatim>\<open>check_model\<close>, lines 490-501)\<close>

text \<open>The table \<^verbatim>\<open>torch_dtype_to_onnx_data_type\<close> (lines 88-98).\<close>

fun torch_dtype_to_onnx_data_type :: "torch_dtype \<Rightarrow> DataType option" where
  "torch_dtype_to_onnx_data_type float32 = Some FLOAT"
| "torch_dtype_to_onnx_data_type uint8 = Some UINT8"
| "torch_dtype_to_onnx_data_type int8 = Some INT8"
| "torch_dtype_to_onnx_data_type int16 = Some INT16"
| "torch_dtype_to_onnx_data_type int32 = Some INT32"
| "torch_dtype_to_onnx_data_type int64 = Some INT64"
| "torch_dtype_to_onnx_data_type bool_dtype = Some BOOL"
| "torch_dtype_to_onnx_data_type float64 = Some DOUBLE"
| "torch_dtype_to_onnx_data_type float16 = Some FLOAT16"
| "torch_dtype_to_onnx_data_type (other_dtype d) = None"

text \<open>\<^verbatim>\<open>_apply_tensor_info_to_value_info\<close> (lines 101-107).\<close>

definition apply_tensor_info_to_value_info :: "ValueInfoProto \<Rightarrow> Tensor \<Rightarrow> error + ValueInfoProto" where
  "apply_tensor_info_to_value_info v t =
     (case torch_dtype_to_onnx_data_type (dtype t) of
        None \<Rightarrow> Inl (KeyError ''dtype'')
      | Some d \<Rightarrow>
          Inr (v\<lparr>vi_type := Some (TypeProto (case vi_type v of None \<Rightarrow> [] | Some p \<Rightarrow> denotation p)
                                     (tensor_type d (Some (tshape t))))\<rparr>))"

text \<open>\<^verbatim>\<open>onnx_value\<close> (lines 673-678).\<close>

definition onnx_value :: "env \<Rightarrow> Exporter \<Rightarrow> TorchValueID \<Rightarrow> ONNXValueID \<Rightarrow> error + ValueInfoProto" where
  "onnx_value env self v nm =
     bind_res (get_value (graph_of self) v) (\<lambda>r.
     bind_res (case vtype r of
                 None \<Rightarrow> Inr None
               | Some ty \<Rightarrow>
                   bind_res (type_to_proto (repr_type env) (cast_pytorch_to_onnx env) ty)
                     (\<lambda>p. Inr (Some p))) (\<lambda>ty.
       Inr \<lparr>vi_name = nm, vi_type = ty,
            vi_doc_string = (if strip_doc_string self then []
                             else repr_value env (graph_of self) v)\<rparr>))"

text \<open>Lines 681-692: the value infos of the graph inputs.\<close>

fun onnx_inputs ::
  "env \<Rightarrow> Exporter \<Rightarrow> (TorchValueID \<rightharpoonup> ONNXValueID) \<Rightarrow> nat \<Rightarrow> nat \<Rightarrow> TorchValueID list
   \<Rightarrow> error + ValueInfoProto list"
where
  "onnx_inputs env self tab idx self_count [] = Inr []"
| "onnx_inputs env self tab idx self_count (v # vs) =
     (if is_self self v then onnx_inputs env self tab (Suc idx) (Suc self_count) vs
      else if uses (graph_of self) v = [] then Inl (AssertionError ''len(v.uses()) > 0'')
      else (case tab v of
              None \<Rightarrow> Inl (KeyError (str_nat v))
            | Some k \<Rightarrow>
                bind_res (onnx_value env self v k) (\<lambda>vi.
                  if idx - self_count \<ge> length (ex_inputs self) then Inl IndexError
                  else
                bind_res (apply_tensor_info_to_value_info vi (ex_inputs self ! (idx - self_count)))
                  (\<lambda>vi1.
                bind_res (onnx_inputs env self tab (Suc idx) self_count vs) (\<lambda>rest.
                  Inr (vi1 # rest))))))"

text \<open>Lines 693-698: the value infos of the graph outputs.\<close>

fun onnx_outputs ::
  "env \<Rightarrow> Exporter \<Rightarrow> (TorchValueID \<rightharpoonup> ONNXValueID) \<Rightarrow> nat \<Rightarrow> TorchValueID list
   \<Rightarrow> error + ValueInfoProto list"
where
  "onnx_outputs env self tab idx [] = Inr []"
| "onnx_outputs env self tab idx (v # vs) =
     (case tab v of
        None \<Rightarrow> Inl (KeyError (str_nat v))
      | Some k \<Rightarrow>
          bind_res (onnx_value env self v k) (\<lambda>vi.
            if idx \<ge> length (ex_outputs self) then Inl IndexError
            else
          bind_res (apply_tensor_info_to_value_info vi (ex_outputs self ! idx)) (\<lambda>vi1.
          bind_res (onnx_outputs env self tab (Suc idx) vs) (\<lambda>rest.
            Inr (vi1 # rest)))))"

definition check_model :: "env \<Rightarrow> Exporter \<Rightarrow> ModelProto \<Rightarrow> error + ModelProto" where
  "check_model env self m =
     bind_res (if onnx_shape_inference self
               then infer_shapes env m (onnx_check_type self) (onnx_strict_mode self)
                      (onnx_data_prop self)
               else Inr m) (\<lambda>m1.
       if enable_onnx_checker self
       then (case checker_check_model env m1 of Some e \<Rightarrow> Inl e | None \<Rightarrow> Inr m1)
       else Inr m1)"

text \<open>Lines 639-647: the lowering of the nodes of the graph, then dead code elimination.\<close>

definition lower_graph :: "nat \<Rightarrow> env \<Rightarrow> Exporter \<Rightarrow> (error + Exporter) option" where
  "lower_graph fuel env self =
     bind_out (generate_onnx_nodes fuel env self TopBlock (block_nodes (top_block (graph_of self))))
       (\<lambda>self1.
     bind_out (lift_res (run_jit_pass env ''dce_allow_deleting_nodes_with_side_effects''
                           (graph_of self1))) (\<lambda>g1.
       Some (Inr (self1\<lparr>graph_of := g1\<rparr>))))"

text \<open>Lines 649-667: constant folding, when the option and the opset version allow it.\<close>

definition fold_graph :: "env \<Rightarrow> Exporter \<Rightarrow> (error + Exporter) option" where
  "fold_graph env self =
     (if do_constant_folding self \<and> opset_version self \<in> set (constant_folding_opset_versions env)
      then
        bind_out (lift_res (jit_pass_onnx_constant_fold env (graph_of self) (vars self)
                              (opset_version self))) (\<lambda>(folded, g1).
        bind_out (fold_inputs env (self\<lparr>graph_of := g1\<rparr>) folded) (\<lambda>self1.
        bind_out (lift_res (jit_pass env ''dce_allow_deleting_nodes_with_side_effects''
                              (graph_of self1))) (\<lambda>g2.
          Some (Inr (self1\<lparr>graph_of := g2\<rparr>)))))
      else Some (Inr self))"

text \<open>
  Lines 669-719: the emission and the model. The result is the checked model, the warnings
  issued and the exporter. The copy \<^verbatim>\<open>original_g\<close> of line 638 is never read and is left out.
\<close>

definition emit_model ::
  "nat \<Rightarrow> env \<Rightarrow> Exporter \<Rightarrow> (error + (ModelProto \<times> string list \<times> Exporter)) option"
where
  "emit_model fuel env self0 =
     (let self = log self0 ''ONNX graph'' (repr_graph env (graph_of self0)) False in
      bind_out (generate_proto_nodes fuel env self TopBlock
                  \<lparr>onnx_vars = [], val_tab = Map.empty, warnings = []\<rparr>) (\<lambda>(onnx_nodes, st).
      bind_out (lift_res (graph_inputs (graph_of self))) (\<lambda>ins.
      bind_out (lift_res (onnx_inputs env self (val_tab st) 0 0 ins)) (\<lambda>oi.
      bind_out (lift_res (graph_outputs (graph_of self))) (\<lambda>outs.
      bind_out (lift_res (onnx_outputs env self (val_tab st) 0 outs)) (\<lambda>oo.
        let gp = GraphProto (original_name self) onnx_nodes oi oo (map snd (onnx_vars st))
                   (if strip_doc_string self then [] else graph_doc_string self);
            self1 = log self ''ONNX printable graph'' (printable_graph env gp) False
        in bind_out (lift_res (check_model env self1
                       \<lparr>mp_graph = gp, mp_opset_import = [([], opset_version self1)]\<rparr>))
             (\<lambda>m. Some (Inr (m, warnings st, self1)))))))))"

definition generate_onnx ::
  "nat \<Rightarrow> env \<Rightarrow> Exporter \<Rightarrow> (error + (ModelProto \<times> string list \<times> Exporter)) option"
where
  "generate_onnx fuel env self =
     bind_out (lower_graph fuel env self) (\<lambda>self1.
     bind_out (fold_graph env self1) (\<lambda>self2.
       emit_model fuel env self2))"

section \<open>The export (\<^verbatim>\<open>_run_trace\<close>, \<^verbatim>\<open>_convert\<close>, \<^verbatim>\<open>generate\<close>, \<^verbatim>\<open>export\<close>)\<close>

text \<open>
  The state outside the exporter object: the three flags of
  \<^verbatim>\<open>torch.onnx.symbolic_helper\<close> (each may hold \<^verbatim>\<open>None\<close>), the flag
  \<^verbatim>\<open>torch.onnx.utils.is_in_onnx_export()\<close> reads, the attribute of \<^verbatim>\<open>torch.onnx.utils\<close> that
  \<^verbatim>\<open>_convert\<close> writes (inside the class, \<^verbatim>\<open>to_utils.__IN_ONNX_EXPORT\<close> names
  \<^verbatim>\<open>_Exporter__IN_ONNX_EXPORT\<close>), \<^verbatim>\<open>to_utils._params_dict\<close>, the warnings issued, the files
  by path and the bytes written to the stream the caller passed.
\<close>

record world =
  export_onnx_opset_version :: "int option"
  operator_export_type_flag :: "OperatorExportTypes option"
  onnx_shape_inference_flag :: "bool option"
  in_onnx_export :: bool
  exporter_in_onnx_export :: bool
  params_dict :: "string \<rightharpoonup> Tensor"
  issued_warnings :: "string list"
  files :: "string \<rightharpoonup> string"
  stream :: string

text \<open>
  \<^verbatim>\<open>_run_trace\<close>, lines 168-181: the exporter after the trace, with \<^verbatim>\<open>self_id\<close> set when the
  first graph input is of a class type.
\<close>

definition traced_exporter :: "env \<Rightarrow> Exporter \<Rightarrow> traced \<Rightarrow> error + Exporter" where
  "traced_exporter env self tr =
     (let self1 = self\<lparr>original_name := tr_original_name tr,
                      graph_doc_string := [CHR 0x0A] @ ''# Model: '' @ tr_original_name tr
                                          @ [CHR 0x0A],
                      ex_outputs := tr_outputs tr,
                      graph_of := tr_inlined_graph tr,
                      vars := tr_state_dict tr,
                      self_id := None\<rparr>
      in bind_res (graph_inputs (graph_of self1)) (\<lambda>ins.
           if ins = [] then Inl IndexError
           else bind_res (get_value (graph_of self1) (hd ins)) (\<lambda>r.
             (case vtype r of
                None \<Rightarrow> Inl (AttributeError ''kind'')
              | Some ty \<Rightarrow>
                  Inr (log (if kind_of_type ty = ''ClassType''
                            then self1\<lparr>self_id := Some (hd ins)\<rparr> else self1)
                         ''Inlined graph'' (repr_graph env (graph_of self1)) False)))))"

text \<open>\<^verbatim>\<open>_run_trace\<close> (lines 157-191).\<close>

definition run_trace :: "env \<Rightarrow> Exporter \<Rightarrow> world \<Rightarrow> (error + Exporter) \<times> world" where
  "run_trace env self w =
     (case trace env self of
        Inl e \<Rightarrow> (Inl e, w)
      | Inr tr \<Rightarrow>
          (case traced_exporter env self tr of
             Inl e \<Rightarrow> (Inl e, w)
           | Inr self3 \<Rightarrow>
               let w1 = w\<lparr>params_dict := vars self3\<rparr> in
               (case optimize env self3 (graph_of self3) of
                  Inl e \<Rightarrow> (Inl e, w1)
                | Inr g1 \<Rightarrow>
                    let self4 = self3\<lparr>graph_of := g1\<rparr>;
                        self5 = log self4 ''Optimized graph'' (repr_graph env g1) False;
                        self6 = log self5 ''Original traced graph'' (tr_graph_str tr) False;
                        self7 = log self6 ''State dict'' (tr_state_dict_str tr) False
                    in (Inr self7, w1))))"

text \<open>\<^verbatim>\<open>sym_hel._set_opset_version\<close>: torch raises \<^verbatim>\<open>ValueError\<close> on a version it does not support.\<close>

definition set_opset_version :: "env \<Rightarrow> world \<Rightarrow> int \<Rightarrow> error + world" where
  "set_opset_version env w v =
     (if supported_opset env v then Inr (w\<lparr>export_onnx_opset_version := Some v\<rparr>)
      else Inl (ValueError ''Unsupported ONNX opset version''))"

text \<open>
  The \<^verbatim>\<open>finally\<close> block of \<^verbatim>\<open>_convert\<close> (lines 739-746), given the three local variables
  and the outcome of the \<^verbatim>\<open>try\<close> block. The export type is restored under the test of
  line 743, which reads \<^verbatim>\<open>prev_shape_inference\<close>. An exception of the block itself
  replaces the outcome.
\<close>

definition convert_finally ::
  "env \<Rightarrow> world \<Rightarrow> int option \<Rightarrow> OperatorExportTypes option \<Rightarrow> bool option
   \<Rightarrow> (error + 'a) \<Rightarrow> (error + 'a) \<times> world"
where
  "convert_finally env w prev_opset_version prev_export_type prev_shape_inference r =
     (let w1 = w\<lparr>exporter_in_onnx_export := False\<rparr> in
      case (case prev_opset_version of
              None \<Rightarrow> Inr w1
            | Some v \<Rightarrow> set_opset_version env w1 v) of
        Inl e \<Rightarrow> (Inl e, w1)
      | Inr w2 \<Rightarrow>
          let w3 = (if prev_shape_inference \<noteq> None
                    then w2\<lparr>operator_export_type_flag := prev_export_type\<rparr> else w2);
              w4 = (if prev_shape_inference \<noteq> None
                    then w3\<lparr>onnx_shape_inference_flag := prev_shape_inference\<rparr> else w3)
          in (r, w4))"

text \<open>
  \<^verbatim>\<open>_convert\<close> (lines 721-746). The result is \<open>None\<close> when the conversion does not return;
  otherwise it is the outcome with the state the \<^verbatim>\<open>finally\<close> block left.
\<close>

definition convert ::
  "nat \<Rightarrow> env \<Rightarrow> Exporter \<Rightarrow> world \<Rightarrow> ((error + Exporter) \<times> world) option"
where
  "convert fuel env self w =
     (if in_onnx_export w
      then Some (convert_finally env w None None None
                   (Inl (AssertionError ''not to_utils.is_in_onnx_export()'')))
      else (case select_model_mode_for_export env self of
              Some e \<Rightarrow> Some (convert_finally env w None None None (Inl e))
            | None \<Rightarrow>
                let w1 = w\<lparr>exporter_in_onnx_export := True\<rparr>;
                    prev_opset_version = export_onnx_opset_version w1
                in (case set_opset_version env w1 (opset_version self) of
                      Inl e \<Rightarrow> Some (convert_finally env w1 prev_opset_version None None (Inl e))
                    | Inr w2 \<Rightarrow>
                        let prev_export_type = operator_export_type_flag w2;
                            w3 = w2\<lparr>operator_export_type_flag := Some (operator_export_type self)\<rparr>;
                            prev_shape_inference = onnx_shape_inference_flag w3;
                            w4 = w3\<lparr>onnx_shape_inference_flag := Some False\<rparr>
                        in (case run_trace env self w4 of
                              (Inl e, w5) \<Rightarrow>
                                Some (convert_finally env w5 prev_opset_version prev_export_type
                                        prev_shape_inference (Inl e))
                            | (Inr self1, w5) \<Rightarrow>
                                (case generate_onnx fuel env self1 of
                                   None \<Rightarrow> None
                                 | Some (Inl e) \<Rightarrow>
                                     Some (convert_finally env w5 prev_opset_version
                                             prev_export_type prev_shape_inference (Inl e))
                                 | Some (Inr (m, warns, self2)) \<Rightarrow>
                                     Some (convert_finally env
                                             (w5\<lparr>issued_warnings := issued_warnings w5 @ warns\<rparr>)
                                             prev_opset_version prev_export_type
                                             prev_shape_inference
                                             (Inr (self2\<lparr>model := Some m\<rparr>))))))))"

text \<open>
  \<^verbatim>\<open>_Exporter.__init__\<close> (lines 141-155); the argument holds the options, and
  \<^verbatim>\<open>ex_inputs\<close> the inputs.
\<close>

definition fresh_exporter :: "Exporter \<Rightarrow> Exporter" where
  "fresh_exporter opts =
     opts\<lparr>attrs := Map.empty, node_doc_string := Map.empty, node_scope := Map.empty\<rparr>"

definition Exporter_init ::
  "nat \<Rightarrow> env \<Rightarrow> Exporter \<Rightarrow> world \<Rightarrow> ((error + Exporter) \<times> world) option"
where
  "Exporter_init fuel env opts w =
     (case register_version env (opset_version opts) of
        Some e \<Rightarrow> Some (Inl e, w)
      | None \<Rightarrow> convert fuel env (fresh_exporter opts) w)"

text \<open>
  \<^verbatim>\<open>generate\<close> (lines 748-753). The argument \<^verbatim>\<open>f\<close> is a path or a stream. Opening a path
  for writing empties the file.
\<close>

datatype file_arg = Path string | Stream

definition generate :: "env \<Rightarrow> Exporter \<Rightarrow> file_arg \<Rightarrow> world \<Rightarrow> (error + unit) \<times> world" where
  "generate env self f w =
     (case model self of
        None \<Rightarrow> (Inl (AttributeError ''model''), w)
      | Some m \<Rightarrow>
          (case f of
             Path path \<Rightarrow>
               (case open_wb env path of
                  Some e \<Rightarrow> (Inl e, w)
                | None \<Rightarrow> (Inr (), w\<lparr>files := (files w)(path \<mapsto> serialize env m)\<rparr>))
           | Stream \<Rightarrow> (Inr (), w\<lparr>stream := stream w @ serialize env m\<rparr>)))"

text \<open>\<^verbatim>\<open>export\<close> (lines 756-765).\<close>

definition export ::
  "nat \<Rightarrow> env \<Rightarrow> Exporter \<Rightarrow> file_arg \<Rightarrow> world \<Rightarrow> ((error + Tensor list) \<times> world) option"
where
  "export fuel env opts f w =
     (case Exporter_init fuel env opts w of
        None \<Rightarrow> None
      | Some (Inl e, w1) \<Rightarrow> Some (Inl e, w1)
      | Some (Inr ex, w1) \<Rightarrow>
          (case generate env ex f w1 of
             (Inl e, w2) \<Rightarrow> Some (Inl e, w2)
           | (Inr u, w2) \<Rightarrow> Some (Inr (ex_outputs ex), w2)))"

section \<open>Notions used to state the properties\<close>

text \<open>
  \<open>returns r\<close>: the call returned a result (it neither raised nor ran forever), and
  \<open>the_result r\<close> is that result.
\<close>

definition returns :: "(error + 'a) option \<Rightarrow> bool" where
  "returns r = (case r of Some (Inr x) \<Rightarrow> True | _ \<Rightarrow> False)"

definition the_result :: "(error + 'a) option \<Rightarrow> 'a" where
  "the_result r = projr (the r)"

text \<open>
  \<open>redirect ps\<close> sends an old output to the new output paired with it in \<open>ps\<close> and leaves
  every other value as it is.
\<close>

text \<open>\<open>raises r e\<close>: the call raised \<open>e\<close>; \<open>raises_out\<close> for a call that may not return.\<close>

definition raises :: "error + 'a \<Rightarrow> error \<Rightarrow> bool" where
  "raises r e = (case r of Inl e' \<Rightarrow> e' = e | Inr x \<Rightarrow> False)"

definition raises_out :: "(error + 'a) option \<Rightarrow> error \<Rightarrow> bool" where
  "raises_out r e = (case r of Some (Inl e') \<Rightarrow> e' = e | _ \<Rightarrow> False)"

definition redirect :: "(TorchValueID \<times> TorchValueID) list \<Rightarrow> TorchValueID \<Rightarrow> TorchValueID" where
  "redirect ps x = (case map_of ps x of None \<Rightarrow> x | Some y \<Rightarrow> y)"

text \<open>
  \<open>subgraph_of_block self b a\<close>: the attribute \<open>a\<close> is a graph that has as many inputs
  and as many outputs as the block \<open>b\<close> has.
\<close>

definition subgraph_of_block :: "Exporter \<Rightarrow> block_ref \<Rightarrow> AttributeProto \<Rightarrow> bool" where
  "subgraph_of_block self b a =
     (case a of
        AttrGraph gp \<Rightarrow>
          (case get_block (graph_of self) b of
             Inl e \<Rightarrow> False
           | Inr blk \<Rightarrow>
               (case (block_inputs (graph_of self) blk, block_outputs (graph_of self) blk) of
                  (Inr ins, Inr outs) \<Rightarrow>
                    length (gp_input gp) = length ins \<and> length (gp_output gp) = length outs
                | _ \<Rightarrow> False))
      | _ \<Rightarrow> False)"

text \<open>\<open>begun r\<close>: \<open>begin_node\<close> returned a node, that is the node is not skipped.\<close>

definition begun :: "error + (Node \<times> emit_state) option \<Rightarrow> bool" where
  "begun r = (case r of Inr (Some p) \<Rightarrow> True | _ \<Rightarrow> False)"

section \<open>Concrete inputs\<close>

text \<open>
  A traced graph \<^verbatim>\<open>graph(%x): %y = aten::relu(%x); return (%y)\<close>, a symbolic function that
  appends \<^verbatim>\<open>onnx::Relu(%x)\<close> and returns its output, and a symbolic function that returns
  two values.
\<close>

definition plain_node :: "string \<times> string \<Rightarrow> TorchValueID list \<Rightarrow> TorchValueID list \<Rightarrow> Node" where
  "plain_node k ins outs =
     \<lparr>kind = k, inputs = ins, outputs = outs, attributes = [], blocks = [],
      scopeName = [], sourceRange = [], scalar_args = []\<rparr>"

definition ex_graph :: Graph where
  "ex_graph =
     \<lparr>nodes =
        [plain_node (''prim'', ''Param'') [] [0],
         (plain_node (''aten'', ''relu'') [0] [1])\<lparr>scopeName := ''M/__module.act''\<rparr>,
         plain_node (''prim'', ''Return'') [1] []],
      vals = [0 \<mapsto> \<lparr>unique_name = ''x'', vtype = Some (TensorType (Some ''Float'') (Some [2, 3])),
                      vnode = 0\<rparr>,
              1 \<mapsto> \<lparr>unique_name = ''y'', vtype = Some (TensorType (Some ''Float'') (Some [2, 3])),
                      vnode = 1\<rparr>],
      next_unique = 2,
      top_block = \<lparr>param_node = 0, block_nodes = [1], return_node = 2\<rparr>\<rparr>"

definition ex_relu :: sym_func where
  "ex_relu gr b args kw =
     Inr (OneValue (next_unique gr),
          gr\<lparr>nodes := nodes gr @ [plain_node (''onnx'', ''Relu'') [0] [next_unique gr]],
             vals := (vals gr)(next_unique gr \<mapsto>
                       \<lparr>unique_name = [], vtype = None, vnode = length (nodes gr)\<rparr>),
             next_unique := Suc (next_unique gr),
             top_block :=
               (top_block gr)\<lparr>block_nodes := block_nodes (top_block gr) @ [length (nodes gr)]\<rparr>\<rparr>)"

definition ex_graph1 :: Graph where
  "ex_graph1 = snd (projr (ex_relu ex_graph TopBlock [] []))"

definition ex_two :: sym_func where
  "ex_two gr b args kw = Inr (ManyValues [0, 0], gr)"

definition ex_tensor :: Tensor where
  "ex_tensor = \<lparr>dtype = float32, tshape = [2, 3], tdata = []\<rparr>"

definition ex_traced :: traced where
  "ex_traced =
     \<lparr>tr_original_name = ''M'', tr_outputs = [ex_tensor], tr_inlined_graph = ex_graph,
      tr_graph_str = ''graph'', tr_state_dict = Map.empty, tr_state_dict_str = []\<rparr>"

definition ex_env :: env where
  "ex_env =
     \<lparr>repr_node = (\<lambda>gr n. ''node''), repr_nodes = (\<lambda>gr ns. ''nodes''),
      repr_value = (\<lambda>gr v. ''value''), repr_type = (\<lambda>t. ''type''),
      toIValue = (\<lambda>gr v. PyNone), fresh_name = (\<lambda>gr s. s @ ''.1''),
      cast_pytorch_to_onnx = [''Float'' \<mapsto> FLOAT],
      registered_op = (\<lambda>op v. if op = ''relu'' then Some ex_relu else None),
      pyobj = (\<lambda>gr n. \<lparr>is_autograd_function = False, symbolic = None\<rparr>),
      gen_const = (\<lambda>n. ex_relu), gen_concat = ex_relu, gen_seq = ex_relu,
      gen_aten_node = (\<lambda>n. ex_relu),
      infer_type = (\<lambda>t. TensorType (Some ''Float'') (Some (tshape t))),
      valid_name = (\<lambda>s. True),
      jit_pass = (\<lambda>p gr. Inr gr),
      jit_pass_vars = (\<lambda>p gr vs. Inr gr),
      jit_pass_onnx_set_dynamic_input_shape = (\<lambda>gr axes names. Inr gr),
      jit_pass_onnx_constant_fold = (\<lambda>gr vs opset. Inr ([], gr)),
      constant_folding_opset_versions = [9, 10, 11, 12],
      repr_graph = (\<lambda>gr. ''graph''),
      printable_graph = (\<lambda>gp. ''graph''),
      infer_shapes = (\<lambda>m check_type strict_mode data_prop. Inr m),
      checker_check_model = (\<lambda>m. None),
      trace = (\<lambda>self. Inr ex_traced),
      select_model_mode_for_export = (\<lambda>self. None),
      supported_opset = (\<lambda>v. 7 \<le> v \<and> v \<le> 13),
      register_version = (\<lambda>v. None),
      serialize = (\<lambda>m. ''bytes''),
      open_wb = (\<lambda>path. None)\<rparr>"

definition ex_self :: Exporter where
  "ex_self =
     \<lparr>opset_version = 12, check_trace = False, strict_trace = True,
      force_outplace_trace = False, verbose = False, strip_doc_string = False,
      torch_constant_prop = True, enable_onnx_checker = True, onnx_shape_inference = True,
      onnx_strict_mode = False, onnx_check_type = False, onnx_data_prop = True,
      input_names = Some [''x''], output_names = None, do_constant_folding = True,
      operator_export_type = ONNX, dynamic_axes = PyNone,
      ex_inputs = [ex_tensor], ex_outputs = [], attrs = Map.empty, node_doc_string = Map.empty,
      node_scope = Map.empty, graph_doc_string = [], original_name = ''M'',
      graph_of = ex_graph, vars = Map.empty, self_id = None, model = None\<rparr>"

text \<open>
  Exporters for the graph above: one with two input names for its one input, and one with
  the right input name and two output names for its one output.
\<close>

definition ex_self2 :: Exporter where
  "ex_self2 = ex_self\<lparr>input_names := Some [''a'', ''b''], output_names := Some [''o1'', ''o2'']\<rparr>"

definition ex_self3 :: Exporter where
  "ex_self3 = ex_self\<lparr>output_names := Some [''o1'', ''o2'']\<rparr>"

definition ex_st0 :: emit_state where
  "ex_st0 = \<lparr>onnx_vars = [], val_tab = Map.empty, warnings = []\<rparr>"

text \<open>
  The graph of the identity, \<^verbatim>\<open>graph(%x): return (%x)\<close>, exported with one input name and
  one output name.
\<close>

definition ex_id_graph :: Graph where
  "ex_id_graph =
     \<lparr>nodes = [plain_node (''prim'', ''Param'') [] [0], plain_node (''prim'', ''Return'') [0] []],
      vals = [0 \<mapsto> \<lparr>unique_name = ''input'',
                      vtype = Some (TensorType (Some ''Float'') (Some [2, 3])), vnode = 0\<rparr>],
      next_unique = 1,
      top_block = \<lparr>param_node = 0, block_nodes = [], return_node = 1\<rparr>\<rparr>"

definition ex_id_self :: Exporter where
  "ex_id_self = ex_self\<lparr>graph_of := ex_id_graph, output_names := Some [''y''],
                         ex_outputs := [ex_tensor]\<rparr>"

text \<open>
  A graph with a conditional,
  \<^verbatim>\<open>graph(%c, %x): %y = prim::If(%c) block0(): %t = onnx::Relu(%x) -> (%t)
  block1(): %e = onnx::Neg(%x) -> (%e); return (%y)\<close>, and the same graph with the second
  block of the conditional removed.
\<close>

definition ex_value :: "string \<Rightarrow> node_id \<Rightarrow> Value" where
  "ex_value nm n =
     \<lparr>unique_name = nm, vtype = Some (TensorType (Some ''Float'') (Some [2, 3])), vnode = n\<rparr>"

definition ex_if_graph :: Graph where
  "ex_if_graph =
     \<lparr>nodes =
        [plain_node (''prim'', ''Param'') [] [0, 1],
         (plain_node (''prim'', ''If'') [0] [4])
           \<lparr>blocks := [\<lparr>param_node = 3, block_nodes = [4], return_node = 5\<rparr>,
                       \<lparr>param_node = 6, block_nodes = [7], return_node = 8\<rparr>]\<rparr>,
         plain_node (''prim'', ''Return'') [4] [],
         plain_node (''prim'', ''Param'') [] [],
         plain_node (''onnx'', ''Relu'') [1] [2],
         plain_node (''prim'', ''Return'') [2] [],
         plain_node (''prim'', ''Param'') [] [],
         plain_node (''onnx'', ''Neg'') [1] [3],
         plain_node (''prim'', ''Return'') [3] []],
      vals = [0 \<mapsto> ex_value ''c'' 0, 1 \<mapsto> ex_value ''x'' 0, 2 \<mapsto> ex_value ''t'' 4,
              3 \<mapsto> ex_value ''e'' 7, 4 \<mapsto> ex_value ''y'' 1],
      next_unique = 5,
      top_block = \<lparr>param_node = 0, block_nodes = [1], return_node = 2\<rparr>\<rparr>"

definition ex_if_self :: Exporter where
  "ex_if_self = ex_self\<lparr>graph_of := ex_if_graph, input_names := Some [''c'', ''x''],
                         ex_inputs := [ex_tensor, ex_tensor], ex_outputs := [ex_tensor]\<rparr>"

definition ex_if1_self :: Exporter where
  "ex_if1_self =
     ex_if_self\<lparr>graph_of := ex_if_graph
       \<lparr>nodes := (nodes ex_if_graph)
          [1 := (nodes ex_if_graph ! 1)\<lparr>blocks := [\<lparr>param_node = 3, block_nodes = [4],
                                                    return_node = 5\<rparr>]\<rparr>]\<rparr>\<rparr>"

text \<open>An emitter state in which the value \<open>1\<close> has a name.\<close>

definition ex_st_given :: emit_state where
  "ex_st_given = ex_st0\<lparr>val_tab := [1 \<mapsto> ''given'']\<rparr>"

text \<open>The collaborators above with an empty registry of symbolic functions.\<close>

definition ex_env_noreg :: env where
  "ex_env_noreg = ex_env\<lparr>registered_op := (\<lambda>op v. None)\<rparr>"

text \<open>
  The state of a process in which no export has run: torch's default opset version, no
  export type, shape inference off.
\<close>

definition ex_world :: world where
  "ex_world =
     \<lparr>export_onnx_opset_version = Some 9, operator_export_type_flag = None,
      onnx_shape_inference_flag = Some False, in_onnx_export = False,
      exporter_in_onnx_export = False, params_dict = Map.empty, issued_warnings = [],
      files = Map.empty, stream = []\<rparr>"

section \<open>Basic facts\<close>

declare generate_onnx_node.simps [simp del]

declare generate_proto_nodes.simps [simp del]

lemma raises_iff: "raises r e \<longleftrightarrow> r = Inl e"
  by (auto simp: raises_def split: sum.splits)

lemma raises_out_iff: "raises_out r e \<longleftrightarrow> r = Some (Inl e)"
  by (auto simp: raises_out_def split: option.splits sum.splits)

lemma not_isl_projr: "\<not> isl r \<Longrightarrow> r = Inr (projr r)"
  by (cases r) simp_all


lemma bind_res_Inl [simp]: "bind_res (Inl e) f = Inl e"
  by (simp add: bind_res_def)

lemma bind_res_Inr [simp]: "bind_res (Inr x) f = f x"
  by (simp add: bind_res_def)

lemma bind_res_eq_Inr:
  "bind_res r f = Inr y \<longleftrightarrow> (\<exists>x. r = Inr x \<and> f x = Inr y)"
  by (cases r) simp_all

section \<open>Properties of the type projector\<close>

text \<open>
  C8. The type projector maps NoneType to the empty descriptor, a list type to a sequence
  around the projection of its element type (failing when that fails), the integer type to
  an INT64 tensor descriptor with an empty shape, and a tensor type to a tensor descriptor
  whose element type is read from the scalar-type table (UNDEFINED when the tensor has no
  scalar type) and whose shape has one dimension per known static size; a type of any
  other kind fails the assertion.
\<close>

theorem type_to_proto_projects:
  "type_to_proto r tab NoneType = Inr (TypeProto [] NotSet)
   \<and> type_to_proto r tab (ListType e) =
       (case type_to_proto r tab e of
          Inl err \<Rightarrow> Inl err
        | Inr p \<Rightarrow> Inr (TypeProto (r (ListType e)) (sequence_type p)))
   \<and> type_to_proto r tab IntType = Inr (TypeProto (r IntType) (tensor_type INT64 (Some [])))
   \<and> type_to_proto r tab (TensorType None sz) =
       Inr (TypeProto (r (TensorType None sz))
             (tensor_type UNDEFINED (Some (case sz of None \<Rightarrow> [] | Some ss \<Rightarrow> ss))))
   \<and> (tab s = Some d \<longrightarrow>
        type_to_proto r tab (TensorType (Some s) (Some ss)) =
          Inr (TypeProto (r (TensorType (Some s) (Some ss))) (tensor_type d (Some ss)))
        \<and> length (the (shape (type_value (projr
              (type_to_proto r tab (TensorType (Some s) (Some ss))))))) = length ss)
   \<and> (kind_of_type t \<notin> {''NoneType'', ''ListType'', ''IntType'', ''TensorType''} \<longrightarrow>
        (\<exists>msg. type_to_proto r tab t = Inl (AssertionError msg)))"
  by (cases t) (simp_all add: bind_res_def)

theorem type_to_proto_projects_witness:
  "[(''Float'' :: string) \<mapsto> FLOAT] ''Float'' = Some FLOAT
   \<and> type_to_proto (\<lambda>_. ''T'') [''Float'' \<mapsto> FLOAT] (TensorType (Some ''Float'') (Some [2, 3]))
       = Inr (TypeProto ''T'' (tensor_type FLOAT (Some [2, 3])))
   \<and> kind_of_type (OtherType ''FloatType'')
       \<notin> {''NoneType'', ''ListType'', ''IntType'', ''TensorType''}
   \<and> (\<exists>msg. type_to_proto (\<lambda>_. ''T'') [''Float'' \<mapsto> FLOAT] (OtherType ''FloatType'')
         = Inl (AssertionError msg))"
  using type_to_proto_projects [of "\<lambda>_. ''T''" "[''Float'' \<mapsto> FLOAT]" _ _ "''Float''" FLOAT
      "[2, 3]" "OtherType ''FloatType''"]
  by simp

section \<open>Properties of the lowering dispatcher\<close>

lemma nodes_replaceAllUsesWith:
  "replaceAllUsesWith g old new = Some g' \<Longrightarrow>
   nodes g' = map (\<lambda>nd. nd\<lparr>inputs := map (subst_value old new) (inputs nd)\<rparr>) (nodes g)"
  by (auto simp: replaceAllUsesWith_def split: if_splits)

lemma nodes_setDebugName:
  "setDebugName env g v nm = Inr g' \<Longrightarrow> nodes g' = nodes g"
  by (auto simp: setDebugName_def bind_res_def split: sum.splits if_splits)

lemma nodes_copyMetadata:
  "copyMetadata env g new old = Inr g' \<Longrightarrow> nodes g' = nodes g"
  by (auto simp: copyMetadata_def bind_res_def Let_def dest: nodes_setDebugName
           split: sum.splits if_splits)

lemma uses_empty_iff:
  "uses g v = [] \<longleftrightarrow> (\<forall>nd \<in> set (nodes g). v \<notin> set (inputs nd))"
proof
  assume e: "uses g v = []"
  show "\<forall>nd \<in> set (nodes g). v \<notin> set (inputs nd)"
  proof
    fix nd assume "nd \<in> set (nodes g)"
    then obtain n where n: "n < length (nodes g)" "nodes g ! n = nd"
      by (auto simp: in_set_conv_nth)
    show "v \<notin> set (inputs nd)"
    proof
      assume "v \<in> set (inputs nd)"
      then obtain i where i: "i < length (inputs nd)" "inputs nd ! i = v"
        by (auto simp: in_set_conv_nth)
      from e have "\<forall>m \<in> {0..<length (nodes g)}.
          \<forall>j \<in> {0..<length (inputs (nodes g ! m))}. inputs (nodes g ! m) ! j \<noteq> v"
        by (simp add: uses_def filter_empty_conv)
      moreover have "n \<in> {0..<length (nodes g)}" "i \<in> {0..<length (inputs (nodes g ! n))}"
        using n i by simp_all
      ultimately have "inputs (nodes g ! n) ! i \<noteq> v"
        by blast
      with n i show False by simp
    qed
  qed
next
  assume a: "\<forall>nd \<in> set (nodes g). v \<notin> set (inputs nd)"
  have "\<And>n i. n < length (nodes g) \<Longrightarrow> i < length (inputs (nodes g ! n)) \<Longrightarrow>
          inputs (nodes g ! n) ! i \<noteq> v"
    using a nth_mem by metis
  then show "uses g v = []"
    by (auto simp: uses_def filter_empty_conv)
qed

lemma redirect_step:
  "new \<notin> fst ` set rest \<Longrightarrow> redirect rest (subst_value old new x) = redirect ((old, new) # rest) x"
  by (auto simp: redirect_def subst_value_def map_of_eq_None_iff[THEN iffD2] split: option.splits)

lemma nodes_replace_uses:
  "replace_uses env g ps = Some (Inr g') \<Longrightarrow> snd ` set ps \<inter> fst ` set ps = {} \<Longrightarrow>
   nodes g' = map (\<lambda>nd. nd\<lparr>inputs := map (redirect ps) (inputs nd)\<rparr>) (nodes g)"
proof (induction ps arbitrary: g)
  case Nil
  then show ?case by (simp add: redirect_def map_idI)
next
  case (Cons p rest)
  obtain old new where p: "p = (old, new)" by (cases p)
  from Cons.prems(1) p obtain g1 g2 where
    g1: "replaceAllUsesWith g old new = Some g1" and
    g2: "copyMetadata env g1 new old = Inr g2" and
    r: "replace_uses env g2 rest = Some (Inr g')"
    by (auto split: option.splits if_splits sum.splits)
  from Cons.prems(2) p have d: "snd ` set rest \<inter> fst ` set rest = {}" and nw: "new \<notin> fst ` set rest"
    by auto
  have "nodes g' = map (\<lambda>nd. nd\<lparr>inputs := map (redirect rest) (inputs nd)\<rparr>) (nodes g2)"
    using Cons.IH [OF r d] .
  also have "nodes g2 = map (\<lambda>nd. nd\<lparr>inputs := map (subst_value old new) (inputs nd)\<rparr>) (nodes g)"
    using nodes_copyMetadata [OF g2] nodes_replaceAllUsesWith [OF g1] by simp
  finally show ?case
    using nw by (simp add: p redirect_step comp_def)
qed


lemma returns_iff: "returns r \<longleftrightarrow> (\<exists>x. r = Some (Inr x))"
  by (auto simp: returns_def split: option.splits sum.splits)

lemma bind_out_eq_Inr:
  "bind_out r f = Some (Inr y) \<longleftrightarrow> (\<exists>x. r = Some (Inr x) \<and> f x = Some (Inr y))"
  by (auto simp: bind_out_def split: option.splits sum.splits)

lemma run_symbolic_function_Inr_ex:
  assumes "run_symbolic_function env self b n f = Some (Inr self')"
  shows "\<exists>sym_outs g1 nd.
    call_symbolic env self b n f = Inr (sym_outs, g1)
    \<and> get_node g1 n = Inr nd
    \<and> length sym_outs = length (outputs nd)
    \<and> replace_uses env g1 (zip (outputs nd) sym_outs) = Some (Inr (graph_of self'))"
proof -
  from assms obtain sym_outs g1 where
    c: "call_symbolic env self b n f = Inr (sym_outs, g1)"
    by (auto simp: run_symbolic_function_def bind_out_def lift_res_def
             split: option.splits sum.splits)
  from assms c obtain nd where nd: "get_node g1 n = Inr nd"
    by (auto simp: run_symbolic_function_def bind_out_def lift_res_def
             split: option.splits sum.splits)
  from assms c nd have len: "length sym_outs = length (outputs nd)"
    by (auto simp: run_symbolic_function_def bind_out_def lift_res_def
             split: option.splits sum.splits if_splits)
  from assms c nd len obtain sym_nodes g2 where
    "replace_uses env g1 (zip (outputs nd) sym_outs) = Some (Inr g2)"
    "graph_of self' = g2"
    by (auto simp: run_symbolic_function_def bind_out_def lift_res_def Let_def
             split: option.splits sum.splits)
  with c nd len show ?thesis by auto
qed

lemma run_symbolic_function_Inr:
  assumes "run_symbolic_function env self b n f = Some (Inr self')"
  obtains sym_outs g1 nd where
    "call_symbolic env self b n f = Inr (sym_outs, g1)"
    "get_node g1 n = Inr nd"
    "length sym_outs = length (outputs nd)"
    "replace_uses env g1 (zip (outputs nd) sym_outs) = Some (Inr (graph_of self'))"
  using run_symbolic_function_Inr_ex [OF assms] by blast

lemma outputs_replace_uses:
  "replace_uses env g ps = Some (Inr g') \<Longrightarrow> map outputs (nodes g') = map outputs (nodes g)"
proof (induction ps arbitrary: g)
  case Nil
  then show ?case by simp
next
  case (Cons p rest)
  obtain old new where p: "p = (old, new)" by (cases p)
  from Cons.prems p obtain g1 g2 where
    g1: "replaceAllUsesWith g old new = Some g1" and
    g2: "copyMetadata env g1 new old = Inr g2" and
    r: "replace_uses env g2 rest = Some (Inr g')"
    by (auto split: option.splits if_splits sum.splits)
  show ?case
    using Cons.IH [OF r] nodes_copyMetadata [OF g2] nodes_replaceAllUsesWith [OF g1]
    by (simp add: comp_def)
qed

lemma returns_the_result: "returns r \<Longrightarrow> r = Some (Inr (the_result r))"
  by (auto simp: returns_def the_result_def split: option.splits sum.splits)

lemma ex_two_call: "call_symbolic ex_env ex_self TopBlock 1 ex_two = Inr ([0, 0], ex_graph)"
  by (simp add: call_symbolic_def ex_self_def ex_graph_def ex_two_def get_node_def
        plain_node_def del_inplace_def as_list_def)

lemma ex_relu_returns: "returns (run_symbolic_function ex_env ex_self TopBlock 1 ex_relu)"
  by code_simp

text \<open>
  C1. When the symbolic function returns a number of values that differs from the number
  of outputs of the node, the dispatcher raises the assertion error of line 432. When the
  dispatcher returns, the symbolic function returned exactly as many values as the node has
  outputs, and the node has the same outputs after the lowering.
\<close>

theorem run_symbolic_function_arity:
  "(call_symbolic env self b n f = Inr (sym_outs, g1) \<and> get_node g1 n = Inr nd
      \<and> length sym_outs \<noteq> length (outputs nd)
    \<longrightarrow> run_symbolic_function env self b n f
          = Some (Inl (AssertionError ''len(sym_outs) == n.outputsSize()'')))
   \<and> (run_symbolic_function env self b n f = Some (Inr self')
    \<longrightarrow> (\<exists>sym_outs g1 nd nd'.
           call_symbolic env self b n f = Inr (sym_outs, g1)
         \<and> get_node g1 n = Inr nd
         \<and> get_node (graph_of self') n = Inr nd'
         \<and> length sym_outs = length (outputs nd)
         \<and> outputs nd' = outputs nd))"
proof (intro conjI impI)
  assume "call_symbolic env self b n f = Inr (sym_outs, g1) \<and> get_node g1 n = Inr nd
      \<and> length sym_outs \<noteq> length (outputs nd)"
  then show "run_symbolic_function env self b n f
          = Some (Inl (AssertionError ''len(sym_outs) == n.outputsSize()''))"
    by (simp add: run_symbolic_function_def bind_out_def lift_res_def)
next
  assume r: "run_symbolic_function env self b n f = Some (Inr self')"
  then obtain so g1 nd where
    c: "call_symbolic env self b n f = Inr (so, g1)" and
    nd: "get_node g1 n = Inr nd" and
    len: "length so = length (outputs nd)" and
    ru: "replace_uses env g1 (zip (outputs nd) so) = Some (Inr (graph_of self'))"
    by (rule run_symbolic_function_Inr)
  have m: "map outputs (nodes (graph_of self')) = map outputs (nodes g1)"
    using outputs_replace_uses [OF ru] .
  then have l: "length (nodes (graph_of self')) = length (nodes g1)"
    using map_eq_imp_length_eq by blast
  from nd have n: "n < length (nodes g1)" "nd = nodes g1 ! n"
    by (auto simp: get_node_def split: if_splits)
  have "outputs (nodes (graph_of self') ! n) = outputs (nodes g1 ! n)"
    using m n l by (metis nth_map)
  with n l have "get_node (graph_of self') n = Inr (nodes (graph_of self') ! n)"
    "outputs (nodes (graph_of self') ! n) = outputs nd"
    by (simp_all add: get_node_def)
  with c nd len show "\<exists>sym_outs g1 nd nd'.
           call_symbolic env self b n f = Inr (sym_outs, g1)
         \<and> get_node g1 n = Inr nd
         \<and> get_node (graph_of self') n = Inr nd'
         \<and> length sym_outs = length (outputs nd)
         \<and> outputs nd' = outputs nd"
    by blast
qed

theorem run_symbolic_function_arity_witness:
  "call_symbolic ex_env ex_self TopBlock 1 ex_two = Inr ([0, 0], ex_graph)
   \<and> get_node ex_graph 1 = Inr (nodes ex_graph ! 1)
   \<and> length [0 :: nat, 0] \<noteq> length (outputs (nodes ex_graph ! 1))
   \<and> run_symbolic_function ex_env ex_self TopBlock 1 ex_two
       = Some (Inl (AssertionError ''len(sym_outs) == n.outputsSize()''))
   \<and> returns (run_symbolic_function ex_env ex_self TopBlock 1 ex_relu)
   \<and> (\<exists>sym_outs g1 nd nd'.
         call_symbolic ex_env ex_self TopBlock 1 ex_relu = Inr (sym_outs, g1)
       \<and> get_node g1 1 = Inr nd
       \<and> get_node (graph_of (the_result (run_symbolic_function ex_env ex_self TopBlock 1 ex_relu)))
            1 = Inr nd'
       \<and> length sym_outs = length (outputs nd)
       \<and> outputs nd' = outputs nd)"
proof -
  have n: "get_node ex_graph 1 = Inr (nodes ex_graph ! 1)"
    by (simp add: get_node_def ex_graph_def)
  have l: "length [0 :: nat, 0] \<noteq> length (outputs (nodes ex_graph ! 1))"
    by (simp add: ex_graph_def plain_node_def)
  show ?thesis
    using run_symbolic_function_arity
            [of ex_env ex_self TopBlock 1 ex_two "[0, 0]" ex_graph "nodes ex_graph ! 1"]
          run_symbolic_function_arity
            [of ex_env ex_self TopBlock 1 ex_relu _ _ _
                "the_result (run_symbolic_function ex_env ex_self TopBlock 1 ex_relu)"]
          ex_two_call n l ex_relu_returns returns_the_result [OF ex_relu_returns]
    by blast
qed

text \<open>
  C2. When the dispatcher returns and the new outputs are new, that is none of them is an
  old output of the node, every old output of the node has an empty use list in the
  resulting graph: every input slot of every node of the graph (the return nodes included)
  that held an old output holds the new output of the same position, and every other slot
  is unchanged.
\<close>

theorem run_symbolic_function_rewires:
  assumes "run_symbolic_function env self b n f = Some (Inr self')"
    and "call_symbolic env self b n f = Inr (sym_outs, g1)"
    and "get_node g1 n = Inr nd"
    and "set sym_outs \<inter> set (outputs nd) = {}"
  shows "(\<forall>old_out \<in> set (outputs nd). uses (graph_of self') old_out = [])
       \<and> nodes (graph_of self')
           = map (\<lambda>m. m\<lparr>inputs := map (redirect (zip (outputs nd) sym_outs)) (inputs m)\<rparr>)
               (nodes g1)"
proof -
  from assms(1) obtain so g1' nd' where
    c: "call_symbolic env self b n f = Inr (so, g1')" and
    nd: "get_node g1' n = Inr nd'" and
    len: "length so = length (outputs nd')" and
    ru: "replace_uses env g1' (zip (outputs nd') so) = Some (Inr (graph_of self'))"
    by (rule run_symbolic_function_Inr)
  from c nd assms(2,3) have eq: "so = sym_outs" "g1' = g1" "nd' = nd" by simp_all
  let ?ps = "zip (outputs nd) sym_outs"
  from len eq have fs: "fst ` set ?ps = set (outputs nd)" "snd ` set ?ps = set sym_outs"
    by (simp_all flip: set_map)
  with assms(4) have d: "snd ` set ?ps \<inter> fst ` set ?ps = {}" by simp
  have ns: "nodes (graph_of self')
           = map (\<lambda>m. m\<lparr>inputs := map (redirect ?ps) (inputs m)\<rparr>) (nodes g1)"
    using nodes_replace_uses [OF ru [unfolded eq] d] .
  have "\<And>old_out x. old_out \<in> set (outputs nd) \<Longrightarrow> redirect ?ps x \<noteq> old_out"
  proof -
    fix old_out x assume o: "old_out \<in> set (outputs nd)"
    show "redirect ?ps x \<noteq> old_out"
    proof (cases "map_of ?ps x")
      case None
      then have "x \<notin> fst ` set ?ps" by (simp add: map_of_eq_None_iff)
      with o fs None show ?thesis by (auto simp: redirect_def)
    next
      case (Some y)
      then have "y \<in> snd ` set ?ps" by (metis map_of_SomeD snd_conv image_eqI)
      with o fs assms(4) Some show ?thesis by (auto simp: redirect_def)
    qed
  qed
  then have "\<forall>old_out \<in> set (outputs nd). uses (graph_of self') old_out = []"
    unfolding uses_empty_iff ns by auto
  with ns show ?thesis by simp
qed

lemma ex_relu_call: "call_symbolic ex_env ex_self TopBlock 1 ex_relu = Inr ([2], ex_graph1)"
  by (simp add: call_symbolic_def ex_self_def ex_graph_def ex_graph1_def ex_relu_def get_node_def
        plain_node_def del_inplace_def as_list_def)

theorem run_symbolic_function_rewires_witness:
  "run_symbolic_function ex_env ex_self TopBlock 1 ex_relu
     = Some (Inr (the_result (run_symbolic_function ex_env ex_self TopBlock 1 ex_relu)))
   \<and> call_symbolic ex_env ex_self TopBlock 1 ex_relu = Inr ([2], ex_graph1)
   \<and> get_node ex_graph1 1 = Inr (nodes ex_graph1 ! 1)
   \<and> set [2] \<inter> set (outputs (nodes ex_graph1 ! 1)) = {}
   \<and> outputs (nodes ex_graph1 ! 1) = [1]
   \<and> uses (graph_of (the_result (run_symbolic_function ex_env ex_self TopBlock 1 ex_relu))) 1 = []
   \<and> map inputs
        (nodes (graph_of (the_result (run_symbolic_function ex_env ex_self TopBlock 1 ex_relu))))
       = [[], [0], [2], [0]]"
proof -
  have n: "get_node ex_graph1 1 = Inr (nodes ex_graph1 ! 1)"
    by (simp add: get_node_def ex_graph1_def ex_relu_def ex_graph_def)
  have o: "outputs (nodes ex_graph1 ! 1) = [1]"
    by (simp add: ex_graph1_def ex_relu_def ex_graph_def plain_node_def)
  have d: "set [2] \<inter> set (outputs (nodes ex_graph1 ! 1)) = {}"
    using o by simp
  have i: "map inputs (nodes ex_graph1) = [[], [0], [1], [0]]"
    by (simp add: ex_graph1_def ex_relu_def ex_graph_def plain_node_def)
  note r = returns_the_result [OF ex_relu_returns]
  from run_symbolic_function_rewires [OF r ex_relu_call n d]
  have u: "uses (graph_of (the_result (run_symbolic_function ex_env ex_self TopBlock 1 ex_relu))) 1 = []"
    and m: "nodes (graph_of (the_result (run_symbolic_function ex_env ex_self TopBlock 1 ex_relu)))
       = map (\<lambda>m. m\<lparr>inputs := map (redirect (zip (outputs (nodes ex_graph1 ! 1)) [2])) (inputs m)\<rparr>)
           (nodes ex_graph1)"
    using o by simp_all
  have "map inputs
        (nodes (graph_of (the_result (run_symbolic_function ex_env ex_self TopBlock 1 ex_relu))))
       = map (map (redirect [(1, 2)])) (map inputs (nodes ex_graph1))"
    using o m by (simp add: comp_def)
  also have "\<dots> = [[], [0], [2], [0]]"
    by (simp add: i redirect_def)
  finally show ?thesis
    using r ex_relu_call n d o u by simp
qed

section \<open>Properties of the optimizer\<close>

lemma log_fields [simp]:
  "input_names (log s t v d) = input_names s"
  "output_names (log s t v d) = output_names s"
  "self_id (log s t v d) = self_id s"
  "graph_of (log s t v d) = graph_of s"
  "vars (log s t v d) = vars s"
  "attrs (log s t v d) = attrs s"
  "node_scope (log s t v d) = node_scope s"
  "node_doc_string (log s t v d) = node_doc_string s"
  "opset_version (log s t v d) = opset_version s"
  "operator_export_type (log s t v d) = operator_export_type s"
  "strip_doc_string (log s t v d) = strip_doc_string s"
  by (simp_all add: log_def)

lemma traced_exporter_input_names:
  "traced_exporter env self tr = Inr self3 \<Longrightarrow> input_names self3 = input_names self"
  by (auto simp: traced_exporter_def Let_def bind_res_def split: sum.splits if_splits option.splits)

lemma rename_graph_inputs_None:
  "input_names self = None \<Longrightarrow>
   rename_graph_inputs env self g1 = Inl (AttributeError ''NoneType object has no attribute copy'')"
  by (simp add: rename_graph_inputs_def)

lemma optimize_None:
  assumes "input_names self = None"
  shows "optimize env self gr \<noteq> Inr g'"
  using assms
  by (cases "optimize_passes env self gr") (simp_all add: optimize_def rename_graph_inputs_None)

text \<open>
  C10. When \<^verbatim>\<open>input_names\<close> is \<^verbatim>\<open>None\<close>, the renaming step of \<^verbatim>\<open>optimize\<close> raises
  \<^verbatim>\<open>AttributeError\<close> at \<^verbatim>\<open>self.input_names.copy()\<close>, before its test for \<^verbatim>\<open>None\<close>: once the
  passes before it have succeeded \<^verbatim>\<open>optimize\<close> raises that error, \<^verbatim>\<open>optimize\<close> never
  returns a graph, and neither does \<^verbatim>\<open>_run_trace\<close>.
\<close>

theorem optimize_input_names_None:
  assumes "input_names self = None"
  shows "(\<forall>g1. optimize_passes env self gr = Inr g1 \<longrightarrow>
            rename_graph_inputs env self g1
              = Inl (AttributeError ''NoneType object has no attribute copy'')
          \<and> optimize env self gr = Inl (AttributeError ''NoneType object has no attribute copy''))
       \<and> (\<forall>g'. optimize env self gr \<noteq> Inr g')
       \<and> (\<forall>self' w'. run_trace env self w \<noteq> (Inr self', w'))"
proof (intro conjI allI impI)
  fix g1 assume "optimize_passes env self gr = Inr g1"
  then show "optimize env self gr = Inl (AttributeError ''NoneType object has no attribute copy'')"
    using assms by (simp add: optimize_def rename_graph_inputs_None)
next
  fix g1 show "rename_graph_inputs env self g1
              = Inl (AttributeError ''NoneType object has no attribute copy'')"
    using assms by (rule rename_graph_inputs_None)
next
  fix g' show "optimize env self gr \<noteq> Inr g'" using assms by (rule optimize_None)
next
  fix self' w'
  show "run_trace env self w \<noteq> (Inr self', w')"
  proof (cases "trace env self")
    case (Inl e)
    then show ?thesis by (simp add: run_trace_def)
  next
    case (Inr tr)
    show ?thesis
    proof (cases "traced_exporter env self tr")
      case (Inl e)
      with Inr show ?thesis by (simp add: run_trace_def)
    next
      case r: (Inr self3)
      with assms have "input_names self3 = None" by (simp add: traced_exporter_input_names)
      then obtain e where "optimize env self3 (graph_of self3) = Inl e"
        using optimize_None [of self3 env "graph_of self3"]
        by (cases "optimize env self3 (graph_of self3)") auto
      with Inr r show ?thesis by (simp add: run_trace_def Let_def)
    qed
  qed
qed

theorem optimize_input_names_None_witness:
  "input_names (ex_self\<lparr>input_names := None\<rparr>) = None
   \<and> optimize_passes ex_env (ex_self\<lparr>input_names := None\<rparr>) ex_graph = Inr ex_graph
   \<and> optimize ex_env (ex_self\<lparr>input_names := None\<rparr>) ex_graph
       = Inl (AttributeError ''NoneType object has no attribute copy'')"
proof -
  have p: "optimize_passes ex_env (ex_self\<lparr>input_names := None\<rparr>) ex_graph = Inr ex_graph"
    by (simp add: optimize_passes_def run_jit_pass_def ex_env_def ex_self_def)
  show ?thesis
    using optimize_input_names_None [of "ex_self\<lparr>input_names := None\<rparr>" ex_env ex_graph] p
    by simp
qed

lemma apply_output_names_fold:
  "apply_output_names names tab idx outs
     = fold (\<lambda>(v, nm) t. t(v \<mapsto> nm)) (zip outs (drop idx names)) tab"
proof (induction outs arbitrary: tab idx)
  case Nil
  then show ?case by simp
next
  case (Cons v vs)
  show ?case
  proof (cases "idx \<ge> length names")
    case True
    then show ?thesis by simp
  next
    case False
    then have "drop idx names = names ! idx # drop (Suc idx) names"
      by (simp add: Cons_nth_drop_Suc)
    with False Cons.IH show ?thesis by simp
  qed
qed

lemma optimize_mismatch:
  assumes "input_names self = Some names"
    and "optimize_passes env self gr = Inr g1"
    and "graph_inputs g1 = Inr ins"
    and "length ins \<noteq> length names + (if self_id self = None then 0 else 1)"
  shows "optimize env self gr
           = Inl (AssertionError ''len(list(graph.inputs())) == len(input_names) + self'')"
  using assms
  by (auto simp: optimize_def rename_graph_inputs_def graph_inputs_def block_inputs_def
        bind_res_def split: sum.splits)

lemma convert_run_trace_fails:
  assumes "\<not> in_onnx_export w"
    and "select_model_mode_for_export env self = None"
    and "supported_opset env (opset_version self)"
    and "case export_onnx_opset_version w of None \<Rightarrow> True | Some v \<Rightarrow> supported_opset env v"
    and "trace env self = Inr tr"
    and "traced_exporter env self tr = Inr self3"
    and "optimize env self3 (graph_of self3) = Inl e"
  shows "\<exists>w'. convert fuel env self w = Some (Inl e, w')"
  using assms
  by (auto simp: convert_def run_trace_def Let_def convert_finally_def set_opset_version_def
           split: option.splits sum.splits)


lemma fold_upd_map_add:
  "fold (\<lambda>(v, nm) t. t(v \<mapsto> nm)) ps tab = tab ++ map_of (rev ps)"
  by (induction ps arbitrary: tab) (auto simp: map_add_def fun_eq_iff split: option.splits)

lemma ex_self2_traced: "\<not> isl (traced_exporter ex_env ex_self2 ex_traced)"
  by code_simp

lemma ex_self2_optimize:
  "raises (optimize ex_env (projr (traced_exporter ex_env ex_self2 ex_traced))
             (graph_of (projr (traced_exporter ex_env ex_self2 ex_traced))))
     (AssertionError ''len(list(graph.inputs())) == len(input_names) + self'')"
  by code_simp




section \<open>Properties of the export\<close>

lemma run_trace_world:
  "snd (run_trace env self w) = w \<or> (\<exists>p. snd (run_trace env self w) = w\<lparr>params_dict := p\<rparr>)"
  by (auto simp: run_trace_def Let_def split: sum.splits)

lemma convert_finally_restores:
  assumes "convert_finally env w1 po pe ps r = (r', w')"
    and "po = None \<and> export_onnx_opset_version w1 = Some v \<or> po = Some v"
    and "supported_opset env v"
    and "ps = None \<and> operator_export_type_flag w1 = x \<and> onnx_shape_inference_flag w1 = Some b
         \<or> ps = Some b \<and> pe = x"
  shows "export_onnx_opset_version w' = Some v \<and> operator_export_type_flag w' = x
         \<and> onnx_shape_inference_flag w' = Some b"
  using assms
  by (auto simp: convert_finally_def set_opset_version_def Let_def split: option.splits if_splits)

lemma convert_cases:
  assumes "convert fuel env self w = Some (r, w')"
  shows "\<exists>w1 po pe ps r0.
      convert_finally env w1 po pe ps r0 = (r, w')
    \<and> files w1 = files w \<and> stream w1 = stream w
    \<and> (po = export_onnx_opset_version w
        \<or> po = None \<and> export_onnx_opset_version w1 = export_onnx_opset_version w)
    \<and> (ps = onnx_shape_inference_flag w \<and> pe = operator_export_type_flag w
        \<or> ps = None \<and> operator_export_type_flag w1 = operator_export_type_flag w
           \<and> onnx_shape_inference_flag w1 = onnx_shape_inference_flag w)"
proof (cases "in_onnx_export w")
  case True
  with assms
  have "convert_finally env w None None None
          (Inl (AssertionError ''not to_utils.is_in_onnx_export()'')) = (r, w')"
    by (simp add: convert_def)
  then show ?thesis
    by (intro exI [of _ w] exI [of _ None]
              exI [of _ "Inl (AssertionError ''not to_utils.is_in_onnx_export()'')"]) simp
next
  case nin: False
  show ?thesis
  proof (cases "select_model_mode_for_export env self")
    case (Some e)
    with assms nin
    have "convert_finally env w None None None (Inl e) = (r, w')"
      by (simp add: convert_def)
    then show ?thesis
      by (intro exI [of _ w] exI [of _ None] exI [of _ "Inl e"]) simp
  next
    case sel: None
    let ?w1 = "w\<lparr>exporter_in_onnx_export := True\<rparr>"
    show ?thesis
    proof (cases "set_opset_version env ?w1 (opset_version self)")
      case (Inl e)
      with assms nin sel
      have "convert_finally env ?w1 (export_onnx_opset_version w) None None (Inl e) = (r, w')"
        by (simp add: convert_def Let_def)
      then show ?thesis
        by (intro exI [of _ ?w1] exI [of _ "export_onnx_opset_version w"] exI [of _ None]
                  exI [of _ "Inl e"]) simp
    next
      case (Inr w2)
      then have w2: "w2 = ?w1\<lparr>export_onnx_opset_version := Some (opset_version self)\<rparr>"
        by (auto simp: set_opset_version_def split: if_splits)
      let ?w4 = "w2\<lparr>operator_export_type_flag := Some (operator_export_type self),
                     onnx_shape_inference_flag := Some False\<rparr>"
      obtain r1 w5 where rt: "run_trace env self ?w4 = (r1, w5)"
        by (cases "run_trace env self ?w4")
      have w5: "files w5 = files w \<and> stream w5 = stream w"
        using run_trace_world [of env self ?w4] rt w2 by auto
      from assms nin sel Inr rt obtain r0 w6 where
        f: "convert_finally env w6 (export_onnx_opset_version w) (operator_export_type_flag w)
              (onnx_shape_inference_flag w) r0 = (r, w')"
        and w6: "w6 = w5 \<or> (\<exists>ws. w6 = w5\<lparr>issued_warnings := ws\<rparr>)"
        by (auto simp: convert_def Let_def w2 split: sum.splits option.splits)
      from w6 w5 have "files w6 = files w \<and> stream w6 = stream w" by auto
      with f show ?thesis by blast
    qed
  qed
qed

lemma is_none_the: "\<not> Option.is_none x \<Longrightarrow> x = Some (fst (the x), snd (the x))"
  by (cases x) (simp_all add: Option.is_none_def)

lemma ex_convert_finishes: "\<not> Option.is_none (convert 0 ex_env ex_self ex_world)"
  by code_simp

text \<open>
  C5. Whatever the outcome of \<^verbatim>\<open>_convert\<close>, success or an exception of any statement of
  its \<^verbatim>\<open>try\<close> block, the opset version, the operator export type and the shape
  inference flag of \<^verbatim>\<open>torch.onnx.symbolic_helper\<close> hold their values of before the export
  when \<^verbatim>\<open>_convert\<close> is left. The flags are of their types before the export: the opset
  version is a version torch supports and the shape inference flag is a boolean (the
  export type may be \<^verbatim>\<open>None\<close>, as it is in a fresh process).
\<close>

theorem convert_restores_flags:
  assumes "convert fuel env self w = Some (r, w')"
    and "export_onnx_opset_version w = Some v" and "supported_opset env v"
    and "onnx_shape_inference_flag w = Some b"
  shows "export_onnx_opset_version w' = export_onnx_opset_version w
       \<and> operator_export_type_flag w' = operator_export_type_flag w
       \<and> onnx_shape_inference_flag w' = onnx_shape_inference_flag w"
proof -
  from assms(1) obtain w1 po pe ps r0 where
    f: "convert_finally env w1 po pe ps r0 = (r, w')" and
    o: "po = None \<and> export_onnx_opset_version w1 = Some v \<or> po = Some v" and
    s: "ps = None \<and> operator_export_type_flag w1 = operator_export_type_flag w
          \<and> onnx_shape_inference_flag w1 = Some b
        \<or> ps = Some b \<and> pe = operator_export_type_flag w"
    using convert_cases [OF assms(1)] assms(2,4) by metis
  show ?thesis
    using convert_finally_restores [OF f o assms(3) s] assms(2,4) by simp
qed


theorem convert_restores_flags_witness:
  "convert 0 ex_env ex_self ex_world
     = Some (fst (the (convert 0 ex_env ex_self ex_world)),
             snd (the (convert 0 ex_env ex_self ex_world)))
   \<and> export_onnx_opset_version ex_world = Some 9
   \<and> supported_opset ex_env 9
   \<and> onnx_shape_inference_flag ex_world = Some False
   \<and> export_onnx_opset_version (snd (the (convert 0 ex_env ex_self ex_world))) = Some 9
   \<and> operator_export_type_flag (snd (the (convert 0 ex_env ex_self ex_world))) = None
   \<and> onnx_shape_inference_flag (snd (the (convert 0 ex_env ex_self ex_world))) = Some False"
proof -
  note c = is_none_the [OF ex_convert_finishes]
  have h: "export_onnx_opset_version ex_world = Some 9" "supported_opset ex_env 9"
    "onnx_shape_inference_flag ex_world = Some False"
    "operator_export_type_flag ex_world = None"
    by (simp_all add: ex_world_def ex_env_def)
  show ?thesis
    using convert_restores_flags [OF c h(1) h(2) h(3)] c h by simp
qed

lemma run_trace_fst: "fst (run_trace env self w) = fst (run_trace env self w0)"
  by (auto simp: run_trace_def Let_def split: sum.splits)

lemma generate_onnx_node_not_found:
  assumes "get_node (graph_of self) n = Inr nd" and "handler (kind nd) = None"
    and "symbolic_function env self n = Inr None" and "operator_export_type self = ONNX"
  shows "generate_onnx_node fuel env self b n
           = Some (Inl (AssertionError ''Symbolic function not found''))"
  using assms
  by (simp add: generate_onnx_node.simps lower_by_symbolic_def bind_out_def lift_res_def)

lemma generate_onnx_nodes_fails:
  assumes "generate_onnx_nodes fuel env self b pre = Some (Inr self1)"
    and "generate_onnx_node fuel env self1 b n = Some (Inl e)"
  shows "generate_onnx_nodes fuel env self b (pre @ n # post) = Some (Inl e)"
  using assms
proof (induction pre arbitrary: self)
  case Nil
  then show ?case by (simp add: bind_out_def)
next
  case (Cons m ms)
  from Cons.prems(1) obtain s1 where
    m: "generate_onnx_node fuel env self b m = Some (Inr s1)" and
    r: "generate_onnx_nodes fuel env s1 b ms = Some (Inr self1)"
    by (auto simp: bind_out_def split: option.splits sum.splits)
  from Cons.IH [OF r Cons.prems(2)] m show ?case
    by (simp add: bind_out_def)
qed

lemma generate_fails_world:
  "generate env ex f w = (Inl e, w') \<Longrightarrow> w' = w"
  by (auto simp: generate_def split: option.splits file_arg.splits)

lemma convert_finally_files:
  "convert_finally env w1 po pe ps r0 = (r, w') \<Longrightarrow> files w' = files w1 \<and> stream w' = stream w1"
  by (auto simp: convert_finally_def set_opset_version_def Let_def
           split: option.splits sum.splits if_splits)

lemma convert_files:
  assumes "convert fuel env self w = Some (r, w')"
  shows "files w' = files w \<and> stream w' = stream w"
  using convert_cases [OF assms] convert_finally_files by metis

lemma export_fails_files:
  assumes "export fuel env opts f w = Some (Inl e, w')"
  shows "files w' = files w \<and> stream w' = stream w"
proof (cases "register_version env (opset_version opts)")
  case (Some e')
  with assms show ?thesis
    by (simp add: export_def Exporter_init_def)
next
  case None
  with assms obtain r w1 where c: "convert fuel env (fresh_exporter opts) w = Some (r, w1)"
    by (cases "convert fuel env (fresh_exporter opts) w") (auto simp: export_def Exporter_init_def)
  note fw = convert_files [OF c]
  show ?thesis
  proof (cases r)
    case (Inl e')
    with assms None c fw show ?thesis
      by (simp add: export_def Exporter_init_def)
  next
    case (Inr ex)
    with assms None c obtain w2 where "generate env ex f w1 = (Inl e, w2)" "w' = w2"
      by (auto simp: export_def Exporter_init_def split: prod.splits sum.splits)
    with generate_fails_world fw show ?thesis by metis
  qed
qed


lemma convert_generate_fails:
  assumes "\<not> in_onnx_export w"
    and "select_model_mode_for_export env self0 = None"
    and "supported_opset env (opset_version self0)"
    and "case export_onnx_opset_version w of None \<Rightarrow> True | Some v \<Rightarrow> supported_opset env v"
    and "fst (run_trace env self0 w) = Inr self"
    and "generate_onnx fuel env self = Some (Inl e)"
  shows "\<exists>w'. convert fuel env self0 w = Some (Inl e, w')"
proof -
  let ?w4 = "w\<lparr>exporter_in_onnx_export := True,
                export_onnx_opset_version := Some (opset_version self0),
                operator_export_type_flag := Some (operator_export_type self0),
                onnx_shape_inference_flag := Some False\<rparr>"
  obtain w5 where rt: "run_trace env self0 ?w4 = (Inr self, w5)"
    using assms(5) run_trace_fst [of env self0 ?w4 w]
    by (cases "run_trace env self0 ?w4") auto
  show ?thesis
    using assms(1-4,6) rt
    by (auto simp: convert_def Let_def convert_finally_def set_opset_version_def
             split: option.splits)
qed

lemma ex_noreg_run_trace: "\<not> isl (fst (run_trace ex_env_noreg (fresh_exporter ex_self) ex_world))"
  by code_simp

lemma ex_noreg_generate:
  "raises_out (generate_onnx 0 ex_env_noreg
                 (projr (fst (run_trace ex_env_noreg (fresh_exporter ex_self) ex_world))))
     (AssertionError ''Symbolic function not found'')"
  by code_simp




section \<open>Properties of the emitter\<close>

lemma assign_onnx_values_le:
  "assign_onnx_values self tab vs = Inr (ks, tab') \<Longrightarrow>
   tab \<subseteq>\<^sub>m tab' \<and> map tab' vs = map Some ks"
proof (induction vs arbitrary: tab ks)
  case Nil
  then show ?case by simp
next
  case (Cons v vs)
  from Cons.prems obtain dflt ks' where
    d: "value_name self v = Inr dflt" and
    r: "assign_onnx_values self (tab(v \<mapsto> (case tab v of Some x \<Rightarrow> x | None \<Rightarrow> dflt))) vs
          = Inr (ks', tab')" and
    k: "ks = (case tab v of Some x \<Rightarrow> x | None \<Rightarrow> dflt) # ks'"
    by (auto simp: bind_res_def Let_def split: sum.splits if_splits prod.splits)
  let ?k = "case tab v of Some x \<Rightarrow> x | None \<Rightarrow> dflt"
  from Cons.IH [OF r] have le: "tab(v \<mapsto> ?k) \<subseteq>\<^sub>m tab'" and m: "map tab' vs = map Some ks'"
    by blast+
  have u: "tab \<subseteq>\<^sub>m tab(v \<mapsto> ?k)"
    by (auto simp: map_le_def split: option.splits)
  have "tab \<subseteq>\<^sub>m tab'" by (rule map_le_trans [OF u le])
  moreover from le have "tab' v = Some ?k"
    by (auto simp: map_le_def dom_def)
  ultimately show ?case using m k by simp
qed

lemma assign_onnx_values_again:
  "assign_onnx_values self tab vs = Inr (ks, tab') \<Longrightarrow> tab' \<subseteq>\<^sub>m t \<Longrightarrow>
   assign_onnx_values self t vs = Inr (ks, t)"
proof (induction vs arbitrary: tab ks)
  case Nil
  then show ?case by simp
next
  case (Cons v vs)
  from Cons.prems(1) obtain dflt ks' where
    d: "value_name self v = Inr dflt" and
    r: "assign_onnx_values self (tab(v \<mapsto> (case tab v of Some x \<Rightarrow> x | None \<Rightarrow> dflt))) vs
          = Inr (ks', tab')" and
    k: "ks = (case tab v of Some x \<Rightarrow> x | None \<Rightarrow> dflt) # ks'"
    by (auto simp: bind_res_def Let_def split: sum.splits if_splits prod.splits)
  let ?k = "case tab v of Some x \<Rightarrow> x | None \<Rightarrow> dflt"
  from assign_onnx_values_le [OF r] have "tab' v = Some ?k"
    by (auto simp: map_le_def dom_def)
  with Cons.prems(2) have tv: "t v = Some ?k"
    by (auto simp: map_le_def dom_def)
  then have "t(v \<mapsto> ?k) = t" by (simp add: fun_upd_idem)
  with Cons.IH [OF r Cons.prems(2)] d tv k show ?case
    by (simp add: Let_def)
qed

lemma name_inputs_le:
  "name_inputs self st vs = Inr st' \<Longrightarrow> val_tab st \<subseteq>\<^sub>m val_tab st'"
proof (induction vs arbitrary: st)
  case Nil
  then show ?case by simp
next
  case (Cons i rest)
  show ?case
  proof (cases "is_self self i")
    case True
    with Cons show ?thesis by simp
  next
    case False
    with Cons.prems have "\<exists>st1. (case attrs self i of
             None \<Rightarrow> Inr st
           | Some k \<Rightarrow>
               if i \<in> set (map fst (onnx_vars st)) then Inr st
               else (case vars self k of
                       None \<Rightarrow> Inl (KeyError k)
                     | Some t \<Rightarrow>
                         Inr (st\<lparr>onnx_vars := onnx_vars st @ [(i, tensor_to_proto t (Some k))]\<rparr>)))
          = Inr st1 \<and> (\<exists>k. value_name self i = Inr k \<and> name_inputs self
            (if val_tab st1 i = None then st1\<lparr>val_tab := (val_tab st1)(i \<mapsto> k)\<rparr> else st1) rest
          = Inr st')"
      by (simp add: bind_res_eq_Inr)
    then obtain st1 k where
      a: "(case attrs self i of
             None \<Rightarrow> Inr st
           | Some k \<Rightarrow>
               if i \<in> set (map fst (onnx_vars st)) then Inr st
               else (case vars self k of
                       None \<Rightarrow> Inl (KeyError k)
                     | Some t \<Rightarrow>
                         Inr (st\<lparr>onnx_vars := onnx_vars st @ [(i, tensor_to_proto t (Some k))]\<rparr>)))
          = Inr st1" and
      r: "name_inputs self
            (if val_tab st1 i = None then st1\<lparr>val_tab := (val_tab st1)(i \<mapsto> k)\<rparr> else st1) rest
          = Inr st'"
      by blast
    from a have s1: "val_tab st1 = val_tab st"
      by (auto split: option.splits if_splits)
    have "val_tab st \<subseteq>\<^sub>m
          val_tab (if val_tab st1 i = None then st1\<lparr>val_tab := (val_tab st1)(i \<mapsto> k)\<rparr> else st1)"
      using s1 by (auto simp: map_le_def)
    then show ?thesis using Cons.IH [OF r] by (rule map_le_trans)
  qed
qed

lemma name_outputs_le:
  "name_outputs self st vs = Inr st' \<Longrightarrow> val_tab st \<subseteq>\<^sub>m val_tab st'"
proof (induction vs arbitrary: st)
  case Nil
  then show ?case by simp
next
  case (Cons out rest)
  from Cons.prems obtain k where
    r: "name_outputs self
          (if val_tab st out = None then st\<lparr>val_tab := (val_tab st)(out \<mapsto> k)\<rparr> else st) rest
        = Inr st'"
    by (auto simp: bind_res_def split: sum.splits)
  have "val_tab st \<subseteq>\<^sub>m
        val_tab (if val_tab st out = None then st\<lparr>val_tab := (val_tab st)(out \<mapsto> k)\<rparr> else st)"
    by (auto simp: map_le_def)
  then show ?case using Cons.IH [OF r] by (rule map_le_trans)
qed

lemma begin_node_le:
  "begin_node self st n = Inr (Some (nd, st2)) \<Longrightarrow>
   val_tab st \<subseteq>\<^sub>m val_tab st2 \<and> get_node (graph_of self) n = Inr nd"
  by (auto simp: begin_node_def bind_res_def split: sum.splits if_splits
           dest!: name_inputs_le name_outputs_le intro: map_le_trans)

lemma end_node_le:
  "end_node self nd nm doc as st = Inr (node, st') \<Longrightarrow>
   val_tab st \<subseteq>\<^sub>m val_tab st' \<and> np_attribute node = as"
  by (auto simp: end_node_def bind_res_def split: sum.splits prod.splits
           dest!: assign_onnx_values_le intro: map_le_trans)


lemma lift_res_eq [simp]: "lift_res r = Some (Inr x) \<longleftrightarrow> r = Inr x"
  by (simp add: lift_res_def)

lemma proto_node_loop_Cons_Inr:
  assumes "proto_node_loop fuel env self (n # ns) c st acc = Some (Inr (out, st'))"
  shows "(begin_node self st n = Inr None
          \<and> proto_node_loop fuel env self ns c st acc = Some (Inr (out, st')))
       \<or> (\<exists>nd st2 doc as st3 node st4.
            begin_node self st n = Inr (Some (nd, st2))
          \<and> (kind nd = (''prim'', ''If'') \<and> length (blocks nd) = 2 \<and> doc = if_doc env self n
              \<and> (\<exists>k. fuel = Suc k
                   \<and> block2subgraphs k env self (node_name nd (Suc c)) (if_doc env self n)
                        (zip [''then_branch'', ''else_branch'']
                             (map (NodeBlock n) [0 ..< length (blocks nd)])) st2
                      = Some (Inr (as, st3)))
              \<or> kind nd \<noteq> (''prim'', ''If'') \<and> plain_attributes self n nd = Inr (doc, as)
                \<and> st3 = st2)
          \<and> end_node self nd (node_name nd (Suc c)) doc as st3 = Inr (node, st4)
          \<and> proto_node_loop fuel env self ns (Suc c) st4 (acc @ [node]) = Some (Inr (out, st')))"
proof -
  from assms obtain started where
    b: "begin_node self st n = Inr started" and
    r: "(case started of
          None \<Rightarrow> proto_node_loop fuel env self ns c st acc
        | Some (nd, st2) \<Rightarrow>
            bind_out
              (if kind nd = (''prim'', ''If'')
               then if length (blocks nd) \<noteq> 2
                    then Some (Inl (AssertionError ''len(blocks) == 2''))
                    else (case fuel of
                            0 \<Rightarrow> None
                          | Suc k \<Rightarrow>
                              bind_out (block2subgraphs k env self (node_name nd (Suc c))
                                          (if_doc env self n)
                                          (zip [''then_branch'', ''else_branch'']
                                               (map (NodeBlock n) [0 ..< length (blocks nd)]))
                                          st2)
                                (\<lambda>(as, st3). Some (Inr (if_doc env self n, as, st3))))
               else bind_out (lift_res (plain_attributes self n nd))
                      (\<lambda>(doc, as). Some (Inr (doc, as, st2))))
              (\<lambda>(doc, as, st3).
            bind_out (lift_res (end_node self nd (node_name nd (Suc c)) doc as st3))
              (\<lambda>(node, st4).
                 proto_node_loop fuel env self ns (Suc c) st4 (acc @ [node])))) = Some (Inr (out, st'))"
    by (auto simp: bind_out_eq_Inr)
  show ?thesis
  proof (cases started)
    case None
    with b r show ?thesis by simp
  next
    case (Some p)
    obtain nd st2 where p: "p = (nd, st2)" by (cases p)
    from r Some p obtain doc as st3 node st4 where
      a: "(if kind nd = (''prim'', ''If'')
               then if length (blocks nd) \<noteq> 2
                    then Some (Inl (AssertionError ''len(blocks) == 2''))
                    else (case fuel of
                            0 \<Rightarrow> None
                          | Suc k \<Rightarrow>
                              bind_out (block2subgraphs k env self (node_name nd (Suc c))
                                          (if_doc env self n)
                                          (zip [''then_branch'', ''else_branch'']
                                               (map (NodeBlock n) [0 ..< length (blocks nd)]))
                                          st2)
                                (\<lambda>(as, st3). Some (Inr (if_doc env self n, as, st3))))
               else bind_out (lift_res (plain_attributes self n nd))
                      (\<lambda>(doc, as). Some (Inr (doc, as, st2)))) = Some (Inr (doc, as, st3))" and
      e: "end_node self nd (node_name nd (Suc c)) doc as st3 = Inr (node, st4)" and
      l: "proto_node_loop fuel env self ns (Suc c) st4 (acc @ [node]) = Some (Inr (out, st'))"
      by (auto simp: bind_out_eq_Inr)
    from a have "kind nd = (''prim'', ''If'') \<and> length (blocks nd) = 2 \<and> doc = if_doc env self n
              \<and> (\<exists>k. fuel = Suc k
                   \<and> block2subgraphs k env self (node_name nd (Suc c)) (if_doc env self n)
                        (zip [''then_branch'', ''else_branch'']
                             (map (NodeBlock n) [0 ..< length (blocks nd)])) st2
                      = Some (Inr (as, st3)))
              \<or> kind nd \<noteq> (''prim'', ''If'') \<and> plain_attributes self n nd = Inr (doc, as)
                \<and> st3 = st2"
      by (auto simp: bind_out_eq_Inr split: if_splits nat.splits)
    with b Some p e l show ?thesis by blast
  qed
qed

lemma block2subgraphs_le:
  assumes Pg: "\<And>b st out st'. b \<noteq> TopBlock \<Longrightarrow>
      generate_proto_nodes k env self b st = Some (Inr (out, st')) \<Longrightarrow>
      val_tab st \<subseteq>\<^sub>m val_tab st'"
  shows "\<forall>p \<in> set bs. snd p \<noteq> TopBlock \<Longrightarrow>
    block2subgraphs k env self nm doc bs st = Some (Inr (as, st')) \<Longrightarrow>
    val_tab st \<subseteq>\<^sub>m val_tab st'"
proof (induction bs arbitrary: st as)
  case Nil
  then show ?case by simp
next
  case (Cons p rest)
  obtain attr_name b where p: "p = (attr_name, b)" by (cases p)
  from Cons.prems(2) p obtain branch_nodes st1 as' where
    g: "generate_proto_nodes k env self b st = Some (Inr (branch_nodes, st1))" and
    r: "block2subgraphs k env self nm doc rest st1 = Some (Inr (as', st'))"
    by (auto simp: bind_out_eq_Inr)
  from Cons.prems(1) p have "b \<noteq> TopBlock" by simp
  from Pg [OF this g] have "val_tab st \<subseteq>\<^sub>m val_tab st1" .
  moreover from Cons.IH [OF _ r] Cons.prems(1) have "val_tab st1 \<subseteq>\<^sub>m val_tab st'" by simp
  ultimately show ?case by (rule map_le_trans)
qed

lemma proto_node_loop_le:
  assumes Pg: "\<And>k b st out st'. fuel = Suc k \<Longrightarrow> b \<noteq> TopBlock \<Longrightarrow>
      generate_proto_nodes k env self b st = Some (Inr (out, st')) \<Longrightarrow>
      val_tab st \<subseteq>\<^sub>m val_tab st'"
  shows "proto_node_loop fuel env self ns c st acc = Some (Inr (out, st')) \<Longrightarrow>
    val_tab st \<subseteq>\<^sub>m val_tab st'"
proof (induction ns arbitrary: c st acc)
  case Nil
  then show ?case by simp
next
  case (Cons n ns)
  from proto_node_loop_Cons_Inr [OF Cons.prems]
  show ?case
  proof (elim disjE exE conjE)
    assume "proto_node_loop fuel env self ns c st acc = Some (Inr (out, st'))"
    then show ?thesis by (rule Cons.IH)
  next
    fix nd st2 doc as st3 node st4 k
    assume b: "begin_node self st n = Inr (Some (nd, st2))"
      and f: "fuel = Suc k"
      and s: "block2subgraphs k env self (node_name nd (Suc c)) (if_doc env self n)
                (zip [''then_branch'', ''else_branch'']
                     (map (NodeBlock n) [0 ..< length (blocks nd)])) st2
              = Some (Inr (as, st3))"
      and e: "end_node self nd (node_name nd (Suc c)) doc as st3 = Inr (node, st4)"
      and l: "proto_node_loop fuel env self ns (Suc c) st4 (acc @ [node]) = Some (Inr (out, st'))"
    have nt: "\<forall>p \<in> set (zip [''then_branch'', ''else_branch'']
                     (map (NodeBlock n) [0 ..< length (blocks nd)])). snd p \<noteq> TopBlock"
      by (auto dest!: set_zip_rightD)
    have "val_tab st \<subseteq>\<^sub>m val_tab st2" using begin_node_le [OF b] by simp
    also have "val_tab st2 \<subseteq>\<^sub>m val_tab st3"
      using block2subgraphs_le [OF Pg [OF f] nt s] by simp
    also have "val_tab st3 \<subseteq>\<^sub>m val_tab st4" using end_node_le [OF e] by simp
    also have "val_tab st4 \<subseteq>\<^sub>m val_tab st'" using Cons.IH [OF l] .
    finally show ?thesis .
  next
    fix nd st2 doc as st3 node st4
    assume b: "begin_node self st n = Inr (Some (nd, st2))"
      and s: "st3 = st2"
      and e: "end_node self nd (node_name nd (Suc c)) doc as st3 = Inr (node, st4)"
      and l: "proto_node_loop fuel env self ns (Suc c) st4 (acc @ [node]) = Some (Inr (out, st'))"
    have "val_tab st \<subseteq>\<^sub>m val_tab st2" using begin_node_le [OF b] by simp
    also have "val_tab st2 \<subseteq>\<^sub>m val_tab st4" using end_node_le [OF e] s by simp
    also have "val_tab st4 \<subseteq>\<^sub>m val_tab st'" using Cons.IH [OF l] .
    finally show ?thesis .
  qed
qed

lemma generate_proto_nodes_TopBlock:
  "generate_proto_nodes fuel env self TopBlock st = Some (Inr (out, st')) \<Longrightarrow>
   \<exists>st1. root_names self (top_block (graph_of self)) st = Inr st1
       \<and> proto_node_loop fuel env self (block_nodes (top_block (graph_of self))) 0 st1 []
           = Some (Inr (out, st'))"
  by (auto simp: generate_proto_nodes.simps bind_out_eq_Inr get_block_def)

lemma generate_proto_nodes_NodeBlock:
  "b \<noteq> TopBlock \<Longrightarrow> generate_proto_nodes fuel env self b st = Some (Inr (out, st')) \<Longrightarrow>
   \<exists>blk. get_block (graph_of self) b = Inr blk
       \<and> proto_node_loop fuel env self (block_nodes blk) 0 st [] = Some (Inr (out, st'))"
  by (auto simp: generate_proto_nodes.simps bind_out_eq_Inr)

lemma generate_proto_nodes_le:
  "b \<noteq> TopBlock \<Longrightarrow> generate_proto_nodes fuel env self b st = Some (Inr (out, st')) \<Longrightarrow>
   val_tab st \<subseteq>\<^sub>m val_tab st'"
proof (induction fuel arbitrary: b st out st' rule: less_induct)
  case (less fuel)
  from generate_proto_nodes_NodeBlock [OF less.prems] obtain blk :: Block where
    l: "proto_node_loop fuel env self (block_nodes blk) 0 st [] = Some (Inr (out, st'))"
    by auto
  show ?case
  proof (rule proto_node_loop_le [OF _ l])
    fix k b' st0 out0 st0'
    assume "fuel = Suc k" "b' \<noteq> TopBlock"
      "generate_proto_nodes k env self b' st0 = Some (Inr (out0, st0'))"
    then show "val_tab st0 \<subseteq>\<^sub>m val_tab st0'"
      using less.IH [of k b' st0 out0 st0'] by blast
  qed
qed



lemma branch_values_length:
  "branch_values env self tab vs = Inr xs \<Longrightarrow> length xs = length vs"
  by (induction vs arbitrary: xs) (auto simp: bind_res_def split: option.splits sum.splits)

lemma branch_graph_shape:
  "branch_graph env self nm doc b branch_nodes st = Inr gp \<Longrightarrow>
   subgraph_of_block self b (AttrGraph gp)"
  by (auto simp: branch_graph_def subgraph_of_block_def bind_res_def
           dest!: branch_values_length split: sum.splits)

lemma block2subgraphs_shape:
  "block2subgraphs k env self nm doc bs st = Some (Inr (as, st')) \<Longrightarrow>
   map fst as = map fst bs \<and> list_all2 (\<lambda>a p. subgraph_of_block self (snd p) (snd a)) as bs"
proof (induction bs arbitrary: st as)
  case Nil
  then show ?case by simp
next
  case (Cons p rest)
  obtain attr_name b where p: "p = (attr_name, b)" by (cases p)
  from Cons.prems p obtain branch_nodes st1 sub_g as' where
    g: "branch_graph env self (nm @ ''_'' @ attr_name) doc b branch_nodes st1 = Inr sub_g" and
    r: "block2subgraphs k env self nm doc rest st1 = Some (Inr (as', st'))" and
    a: "as = (attr_name, AttrGraph sub_g) # as'"
    by (auto simp: bind_out_eq_Inr)
  from Cons.IH [OF r] branch_graph_shape [OF g] a p show ?case by simp
qed

lemma proto_node_loop_prefix:
  "proto_node_loop fuel env self ns c st acc = Some (Inr (out, st')) \<Longrightarrow>
   take (length acc) out = acc \<and> length acc \<le> length out"
proof (induction ns arbitrary: c st acc)
  case Nil
  then show ?case by simp
next
  case (Cons n ns)
  from proto_node_loop_Cons_Inr [OF Cons.prems]
  show ?case
  proof (elim disjE exE conjE)
    assume "proto_node_loop fuel env self ns c st acc = Some (Inr (out, st'))"
    then show ?thesis by (rule Cons.IH)
  next
    fix nd st2 doc as st3 node st4 k
    assume "proto_node_loop fuel env self ns (Suc c) st4 (acc @ [node]) = Some (Inr (out, st'))"
    from Cons.IH [OF this] have "take (Suc (length acc)) out = acc @ [node]"
      "Suc (length acc) \<le> length out" by simp_all
    then show ?thesis
      by (metis Suc_leD append_eq_conv_conj length_take min.absorb2 take_take le_SucI
            nat_le_linear min.commute)
  next
    fix nd st2 doc as st3 node st4
    assume "proto_node_loop fuel env self ns (Suc c) st4 (acc @ [node]) = Some (Inr (out, st'))"
    from Cons.IH [OF this] have "take (Suc (length acc)) out = acc @ [node]"
      "Suc (length acc) \<le> length out" by simp_all
    then show ?thesis
      by (metis Suc_leD append_eq_conv_conj length_take min.absorb2 take_take le_SucI
            nat_le_linear min.commute)
  qed
qed


lemma begun_eq: "begun r \<Longrightarrow> r = Inr (Some (fst (the (projr r)), snd (the (projr r))))"
  by (auto simp: begun_def split: sum.splits option.splits)

lemma ex_if_begun: "begun (begin_node ex_if_self ex_st0 1)"
  by code_simp

lemma ex_if_kind: "kind (fst (the (projr (begin_node ex_if_self ex_st0 1)))) = (''prim'', ''If'')"
  by code_simp

lemma ex_if_returns: "returns (proto_node_loop 1 ex_env ex_if_self [1] 0 ex_st0 [])"
  by code_simp

lemma ex_if1_begun: "begun (begin_node ex_if1_self ex_st0 1)"
  by code_simp

lemma ex_if1_kind:
  "kind (fst (the (projr (begin_node ex_if1_self ex_st0 1)))) = (''prim'', ''If'')
   \<and> length (blocks (fst (the (projr (begin_node ex_if1_self ex_st0 1))))) \<noteq> 2"
  by code_simp

text \<open>
  C3. When the emitter reaches a \<^verbatim>\<open>prim::If\<close> node that is not skipped: if the node has
  not exactly two blocks the emitter raises the assertion error of line 616; if the
  emitter returns, the node has two blocks and the \<^verbatim>\<open>NodeProto\<close> emitted for it (the one
  after those already emitted) has exactly the attributes \<^verbatim>\<open>then_branch\<close> and
  \<^verbatim>\<open>else_branch\<close>, in that order, each a graph with as many inputs and as many outputs as
  the first and the second block of the node have.
\<close>

theorem conditional_branches:
  assumes "begin_node self st n = Inr (Some (nd, st2))" and "kind nd = (''prim'', ''If'')"
  shows "(length (blocks nd) \<noteq> 2 \<longrightarrow>
            proto_node_loop fuel env self (n # ns) c st acc
              = Some (Inl (AssertionError ''len(blocks) == 2'')))
       \<and> (proto_node_loop fuel env self (n # ns) c st acc = Some (Inr (out, st')) \<longrightarrow>
            length (blocks nd) = 2 \<and> take (length acc) out = acc \<and> length acc < length out
            \<and> (\<exists>at ae. np_attribute (out ! length acc)
                          = [(''then_branch'', at), (''else_branch'', ae)]
                 \<and> subgraph_of_block self (NodeBlock n 0) at
                 \<and> subgraph_of_block self (NodeBlock n 1) ae))"
proof -
  have p1: "proto_node_loop fuel env self (n # ns) c st acc
              = Some (Inl (AssertionError ''len(blocks) == 2''))"
    if "length (blocks nd) \<noteq> 2"
    using that assms by (simp add: bind_out_def lift_res_def)
  have p2: "length (blocks nd) = 2 \<and> take (length acc) out = acc \<and> length acc < length out
            \<and> (\<exists>at ae. np_attribute (out ! length acc)
                          = [(''then_branch'', at), (''else_branch'', ae)]
                 \<and> subgraph_of_block self (NodeBlock n 0) at
                 \<and> subgraph_of_block self (NodeBlock n 1) ae)"
    if l: "proto_node_loop fuel env self (n # ns) c st acc = Some (Inr (out, st'))"
  proof -
  from proto_node_loop_Cons_Inr [OF l] assms obtain k doc as st3 node st4 where
    two: "length (blocks nd) = 2" and
    s: "block2subgraphs k env self (node_name nd (Suc c)) (if_doc env self n)
          (zip [''then_branch'', ''else_branch''] (map (NodeBlock n) [0 ..< length (blocks nd)])) st2
        = Some (Inr (as, st3))" and
    e: "end_node self nd (node_name nd (Suc c)) doc as st3 = Inr (node, st4)" and
    r: "proto_node_loop fuel env self ns (Suc c) st4 (acc @ [node]) = Some (Inr (out, st'))"
    by auto
  from two have z: "zip [''then_branch'', ''else_branch''] (map (NodeBlock n) [0 ..< length (blocks nd)])
      = [(''then_branch'', NodeBlock n 0), (''else_branch'', NodeBlock n 1)]"
    by (simp add: upt_rec)
  from block2subgraphs_shape [OF s [unfolded z]] obtain at ae where
    as: "as = [(''then_branch'', at), (''else_branch'', ae)]" and
    sh: "subgraph_of_block self (NodeBlock n 0) at" "subgraph_of_block self (NodeBlock n 1) ae"
    by (auto simp: list_all2_Cons2)
  from proto_node_loop_prefix [OF r] have t: "take (Suc (length acc)) out = acc @ [node]"
    and len: "Suc (length acc) \<le> length out" by simp_all
  from t have "out ! length acc = node"
    by (metis lessI nth_append_length nth_take)
  with end_node_le [OF e] as have a: "np_attribute (out ! length acc)
                          = [(''then_branch'', at), (''else_branch'', ae)]"
    by simp
  from proto_node_loop_prefix [OF l] have "take (length acc) out = acc" by simp
  with two len a sh show ?thesis
    by auto
  qed
  show ?thesis
    using p1 p2 by blast
qed

theorem conditional_branches_witness:
  "begin_node ex_if_self ex_st0 1
     = Inr (Some (fst (the (projr (begin_node ex_if_self ex_st0 1))),
                  snd (the (projr (begin_node ex_if_self ex_st0 1)))))
   \<and> kind (fst (the (projr (begin_node ex_if_self ex_st0 1)))) = (''prim'', ''If'')
   \<and> returns (proto_node_loop 1 ex_env ex_if_self [1] 0 ex_st0 [])
   \<and> (\<exists>at ae. np_attribute (fst (the_result (proto_node_loop 1 ex_env ex_if_self [1] 0 ex_st0 [])) ! 0)
                  = [(''then_branch'', at), (''else_branch'', ae)]
         \<and> subgraph_of_block ex_if_self (NodeBlock 1 0) at
         \<and> subgraph_of_block ex_if_self (NodeBlock 1 1) ae)
   \<and> begin_node ex_if1_self ex_st0 1
     = Inr (Some (fst (the (projr (begin_node ex_if1_self ex_st0 1))),
                  snd (the (projr (begin_node ex_if1_self ex_st0 1)))))
   \<and> length (blocks (fst (the (projr (begin_node ex_if1_self ex_st0 1))))) \<noteq> 2
   \<and> proto_node_loop 1 ex_env ex_if1_self [1] 0 ex_st0 []
       = Some (Inl (AssertionError ''len(blocks) == 2''))"
proof -
  note b = begun_eq [OF ex_if_begun]
  note b1 = begun_eq [OF ex_if1_begun]
  have r: "proto_node_loop 1 ex_env ex_if_self [1] 0 ex_st0 []
      = Some (Inr (fst (the_result (proto_node_loop 1 ex_env ex_if_self [1] 0 ex_st0 [])),
                   snd (the_result (proto_node_loop 1 ex_env ex_if_self [1] 0 ex_st0 []))))"
    using returns_the_result [OF ex_if_returns] by simp
  have c1: "\<exists>at ae. np_attribute (fst (the_result (proto_node_loop 1 ex_env ex_if_self [1] 0 ex_st0 [])) ! 0)
                  = [(''then_branch'', at), (''else_branch'', ae)]
         \<and> subgraph_of_block ex_if_self (NodeBlock 1 0) at
         \<and> subgraph_of_block ex_if_self (NodeBlock 1 1) ae"
    using conditional_branches [OF b ex_if_kind, where fuel = 1 and env = ex_env and ns = "[]"
        and c = 0 and acc = "[]"
        and out = "fst (the_result (proto_node_loop 1 ex_env ex_if_self [1] 0 ex_st0 []))"
        and st' = "snd (the_result (proto_node_loop 1 ex_env ex_if_self [1] 0 ex_st0 []))"] r
    by (metis list.size(3))
  have c2: "proto_node_loop 1 ex_env ex_if1_self [1] 0 ex_st0 []
       = Some (Inl (AssertionError ''len(blocks) == 2''))"
    using conditional_branches [OF b1 conjunct1 [OF ex_if1_kind], where fuel = 1 and env = ex_env
        and ns = "[]" and c = 0 and acc = "[]"] ex_if1_kind
    by blast
  show ?thesis
    using b ex_if_kind ex_if_returns c1 b1 ex_if1_kind c2 by blast
qed


lemma map_le_SomeD: "m \<subseteq>\<^sub>m m' \<Longrightarrow> m a = Some x \<Longrightarrow> m' a = Some x"
  by (auto simp: map_le_def dom_def)

lemma ex_assign: "assign_onnx_values ex_self Map.empty [0] = Inr ([''x''], [0 \<mapsto> ''x''])"
  by (simp add: value_name_def ex_self_def ex_graph_def get_value_def get_node_def
        plain_node_def remove_prefix_def last_segment_def debugName_def Let_def)

lemma ex_given_block: "returns (generate_proto_nodes 0 ex_env ex_if_self (NodeBlock 1 0) ex_st_given)"
  by code_simp

lemma ex_given_loop: "returns (proto_node_loop 0 ex_env ex_if_self [4] 0 ex_st_given [])"
  by code_simp

lemma ex_if_top: "returns (generate_proto_nodes 1 ex_env ex_if_self TopBlock ex_st0)"
  by code_simp

lemma ex_if_root:
  "\<not> isl (root_names ex_if_self (top_block (graph_of ex_if_self)) ex_st0)
   \<and> val_tab (projr (root_names ex_if_self (top_block (graph_of ex_if_self)) ex_st0)) 0 = Some ''c''"
  by code_simp

lemma ex_id_gpn: "returns (generate_proto_nodes 0 ex_env ex_id_self TopBlock ex_st0)"
  by code_simp

text \<open>
  C7, as the source has it. From the first node of an emission on, the table of value
  names is append-only: \<^verbatim>\<open>assign_onnx_values\<close>, the loop over the nodes and the emission of
  a block of a conditional leave every name of the table as it is, and
  \<^verbatim>\<open>assign_onnx_values\<close> run again on the same values returns the same names and the same
  table. In the root graph the same holds from the table that the step applying
  \<^verbatim>\<open>input_names\<close> and \<^verbatim>\<open>output_names\<close> leaves.
\<close>

theorem val_tab_append_only:
  "(assign_onnx_values self tab vs = Inr (ks, tab')
    \<longrightarrow> tab \<subseteq>\<^sub>m tab' \<and> map tab' vs = map Some ks
        \<and> assign_onnx_values self tab' vs = Inr (ks, tab'))
   \<and> (proto_node_loop fuel env self ns c st acc = Some (Inr (out, st'))
    \<longrightarrow> val_tab st \<subseteq>\<^sub>m val_tab st')
   \<and> (b \<noteq> TopBlock \<and> generate_proto_nodes fuel env self b st = Some (Inr (out, st'))
    \<longrightarrow> val_tab st \<subseteq>\<^sub>m val_tab st')
   \<and> (generate_proto_nodes fuel env self TopBlock st = Some (Inr (out, st'))
    \<longrightarrow> (\<exists>st1. root_names self (top_block (graph_of self)) st = Inr st1
             \<and> val_tab st1 \<subseteq>\<^sub>m val_tab st'))"
proof (intro conjI impI)
  assume a: "assign_onnx_values self tab vs = Inr (ks, tab')"
  show "tab \<subseteq>\<^sub>m tab'" "map tab' vs = map Some ks"
    using assign_onnx_values_le [OF a] by simp_all
  show "assign_onnx_values self tab' vs = Inr (ks, tab')"
    using assign_onnx_values_again [OF a] by simp
next
  assume "proto_node_loop fuel env self ns c st acc = Some (Inr (out, st'))"
  then show "val_tab st \<subseteq>\<^sub>m val_tab st'"
    using proto_node_loop_le generate_proto_nodes_le by blast
next
  assume "b \<noteq> TopBlock \<and> generate_proto_nodes fuel env self b st = Some (Inr (out, st'))"
  then show "val_tab st \<subseteq>\<^sub>m val_tab st'"
    using generate_proto_nodes_le by blast
next
  assume "generate_proto_nodes fuel env self TopBlock st = Some (Inr (out, st'))"
  from generate_proto_nodes_TopBlock [OF this] obtain st1 where
    r: "root_names self (top_block (graph_of self)) st = Inr st1" and
    l: "proto_node_loop fuel env self (block_nodes (top_block (graph_of self))) 0 st1 []
          = Some (Inr (out, st'))"
    by blast
  have "val_tab st1 \<subseteq>\<^sub>m val_tab st'"
    using proto_node_loop_le [OF _ l] generate_proto_nodes_le by blast
  with r show "\<exists>st1. root_names self (top_block (graph_of self)) st = Inr st1
             \<and> val_tab st1 \<subseteq>\<^sub>m val_tab st'"
    by blast
qed

theorem val_tab_append_only_witness:
  "assign_onnx_values ex_self Map.empty [0] = Inr ([''x''], [0 \<mapsto> ''x''])
   \<and> assign_onnx_values ex_self [0 \<mapsto> ''x''] [0] = Inr ([''x''], [0 \<mapsto> ''x''])
   \<and> returns (proto_node_loop 0 ex_env ex_if_self [4] 0 ex_st_given [])
   \<and> val_tab ex_st_given 1 = Some ''given''
   \<and> val_tab (snd (the_result (proto_node_loop 0 ex_env ex_if_self [4] 0 ex_st_given []))) 1
       = Some ''given''
   \<and> NodeBlock 1 0 \<noteq> TopBlock
   \<and> returns (generate_proto_nodes 0 ex_env ex_if_self (NodeBlock 1 0) ex_st_given)
   \<and> val_tab (snd (the_result (generate_proto_nodes 0 ex_env ex_if_self (NodeBlock 1 0) ex_st_given))) 1
       = Some ''given''
   \<and> returns (generate_proto_nodes 1 ex_env ex_if_self TopBlock ex_st0)
   \<and> val_tab (snd (the_result (generate_proto_nodes 1 ex_env ex_if_self TopBlock ex_st0))) 0
       = Some ''c''"
proof -
  let ?l = "proto_node_loop 0 ex_env ex_if_self [4] 0 ex_st_given []"
  let ?b = "generate_proto_nodes 0 ex_env ex_if_self (NodeBlock 1 0) ex_st_given"
  let ?t = "generate_proto_nodes 1 ex_env ex_if_self TopBlock ex_st0"
  have g: "val_tab ex_st_given 1 = Some ''given''"
    by (simp add: ex_st_given_def ex_st0_def)
  have rl: "?l = Some (Inr (fst (the_result ?l), snd (the_result ?l)))"
    using returns_the_result [OF ex_given_loop] by simp
  have rb: "?b = Some (Inr (fst (the_result ?b), snd (the_result ?b)))"
    using returns_the_result [OF ex_given_block] by simp
  have rt: "?t = Some (Inr (fst (the_result ?t), snd (the_result ?t)))"
    using returns_the_result [OF ex_if_top] by simp
  have c1: "assign_onnx_values ex_self [0 \<mapsto> ''x''] [0] = Inr ([''x''], [0 \<mapsto> ''x''])"
    using val_tab_append_only [where self = ex_self and tab = Map.empty and vs = "[0]"
        and ks = "[''x'']" and tab' = "[0 \<mapsto> ''x'']", THEN conjunct1, THEN mp, OF ex_assign,
        THEN conjunct2, THEN conjunct2] .
  have "val_tab ex_st_given \<subseteq>\<^sub>m val_tab (snd (the_result ?l))"
    using val_tab_append_only [where fuel = 0 and env = ex_env and self = ex_if_self
        and ns = "[4]" and c = 0 and st = ex_st_given and acc = "[]"
        and out = "fst (the_result ?l)" and st' = "snd (the_result ?l)",
        THEN conjunct2, THEN conjunct1, THEN mp, OF rl] .
  then have c2: "val_tab (snd (the_result ?l)) 1 = Some ''given''"
    using g by (rule map_le_SomeD)
  have nb: "NodeBlock 1 0 \<noteq> TopBlock" by simp
  have "val_tab ex_st_given \<subseteq>\<^sub>m val_tab (snd (the_result ?b))"
    using val_tab_append_only [where fuel = 0 and env = ex_env and self = ex_if_self
        and b = "NodeBlock 1 0" and st = ex_st_given
        and out = "fst (the_result ?b)" and st' = "snd (the_result ?b)",
        THEN conjunct2, THEN conjunct2, THEN conjunct1, THEN mp, OF conjI [OF nb rb]] .
  then have c3: "val_tab (snd (the_result ?b)) 1 = Some ''given''"
    using g by (rule map_le_SomeD)
  have "\<exists>st1. root_names ex_if_self (top_block (graph_of ex_if_self)) ex_st0 = Inr st1
             \<and> val_tab st1 \<subseteq>\<^sub>m val_tab (snd (the_result ?t))"
    using val_tab_append_only [where fuel = 1 and env = ex_env and self = ex_if_self
        and st = ex_st0 and out = "fst (the_result ?t)" and st' = "snd (the_result ?t)",
        THEN conjunct2, THEN conjunct2, THEN conjunct2, THEN mp, OF rt] .
  then obtain st1 where
    r1: "root_names ex_if_self (top_block (graph_of ex_if_self)) ex_st0 = Inr st1" and
    le: "val_tab st1 \<subseteq>\<^sub>m val_tab (snd (the_result ?t))"
    by (elim exE conjE)
  from r1 ex_if_root have "val_tab st1 0 = Some ''c''" by simp
  with le have c4: "val_tab (snd (the_result ?t)) 0 = Some ''c''"
    by (rule map_le_SomeD)
  show ?thesis
    by (intro conjI ex_assign c1 ex_given_loop g c2 nb ex_given_block c3 ex_if_top c4)
qed

text \<open>
  C7, as the claim states it, fails in the root graph. For the identity graph exported with
  \<^verbatim>\<open>input_names = ["x"]\<close> and \<^verbatim>\<open>output_names = ["y"]\<close>, the only value is both the graph
  input and the graph output: lines 560-564 give it the name \<^verbatim>\<open>x\<close>, lines 569-572 then
  replace that name by \<^verbatim>\<open>y\<close>, and \<^verbatim>\<open>y\<close> is the name in the table the emission returns.
\<close>

theorem val_tab_name_replaced:
  "graph_inputs (graph_of ex_id_self) = Inr [0]
   \<and> graph_outputs (graph_of ex_id_self) = Inr [0]
   \<and> input_names ex_id_self = Some [''x'']
   \<and> output_names ex_id_self = Some [''y'']
   \<and> \<not> isl (root_input_names ex_id_self ex_st0 [0])
   \<and> val_tab (projr (root_input_names ex_id_self ex_st0 [0])) 0 = Some ''x''
   \<and> val_tab (root_output_names ex_id_self (projr (root_input_names ex_id_self ex_st0 [0])) [0]) 0
       = Some ''y''
   \<and> returns (generate_proto_nodes 0 ex_env ex_id_self TopBlock ex_st0)
   \<and> val_tab (snd (the_result (generate_proto_nodes 0 ex_env ex_id_self TopBlock ex_st0))) 0
       = Some ''y''"
  by code_simp

end
